theory Spec2Isabelle
  imports Main "HOL-Library.Sublist"
begin

section \<open>The asset server of spa-base (cmd/spa\_d/serve.go)\<close>

text \<open>
  The development embeds the request pipeline of the server: the handler with its base-URL
  stripping, the multi-root file lookup, the negotiation of precompressed variants, the
  import fallback with its process-wide cache, the fallback to the entry document and the
  header policy.  Telemetry spans, counters and log records only observe the pipeline and
  are left out.

  Every function that touches the response writer, the import-fallback map or the file
  system passes a \<open>world\<close> along.  Three fields of it are bookkeeping that the program
  does not hold itself: \<open>opens\<close> lists the arguments of \<open>os.Open\<close> in call order,
  \<open>closes\<close> the handles given to \<open>Close\<close> and \<open>serves\<close> the names and handles
  given to \<open>http.ServeContent\<close>, so that "no file system access", "the handle is
  released" and "this file is the one served" are statements about the world.
\<close>

subsection \<open>Go library functions used by the server\<close>

text \<open>\<open>strings.HasPrefix(s, prefix)\<close> and \<open>strings.HasSuffix(s, suffix)\<close>.\<close>

definition strings_HasPrefix :: "string \<Rightarrow> string \<Rightarrow> bool" where
  "strings_HasPrefix s pre = prefix pre s"

definition strings_HasSuffix :: "string \<Rightarrow> string \<Rightarrow> bool" where
  "strings_HasSuffix s suf = suffix suf s"

text \<open>
  \<open>path.Join(rootDir, resourcePath)\<close> of the Go library: the non-empty arguments are
  joined by a slash and the result is cleaned lexically (\<open>path.Clean\<close>: runs of slashes
  collapse, \<open>.\<close> elements vanish, \<open>..\<close> removes the element before it, a rooted path
  never climbs above the root, the empty result is \<open>.\<close>).
\<close>

fun path_elements :: "string \<Rightarrow> string list" where
  "path_elements [] = [[]]"
| "path_elements (c # cs) =
     (if c = CHR ''/'' then [] # path_elements cs
      else (case path_elements cs of
              [] \<Rightarrow> [[c]]
            | e # es \<Rightarrow> (c # e) # es))"

definition clean_element :: "bool \<Rightarrow> string list \<Rightarrow> string \<Rightarrow> string list" where
  "clean_element rooted out e =
     (if e = [] \<or> e = ''.'' then out
      else if e = ''..'' then
        (if out \<noteq> [] \<and> last out \<noteq> ''..'' then butlast out
         else if rooted then out
         else out @ [''..''])
      else out @ [e])"

fun slash_join :: "string list \<Rightarrow> string" where
  "slash_join [] = []"
| "slash_join [e] = e"
| "slash_join (e # es) = e @ ''/'' @ slash_join es"

definition path_Clean :: "string \<Rightarrow> string" where
  "path_Clean p =
     (case p of
        [] \<Rightarrow> ''.''
      | c # _ \<Rightarrow>
          (let rooted = (c = CHR ''/'');
               body = slash_join (foldl (clean_element rooted) [] (path_elements p))
           in if rooted then CHR ''/'' # body
              else if body = [] then ''.'' else body))"

definition path_Join :: "string \<Rightarrow> string \<Rightarrow> string" where
  "path_Join a b =
     (if a = [] \<and> b = [] then []
      else if a = [] then path_Clean b
      else path_Clean (a @ ''/'' @ b))"

text \<open>
  \<open>filepath.Ext\<close>: the suffix that starts at the last dot of the last element of the
  path, empty when that element has no dot.
\<close>

fun ext_scan :: "string \<Rightarrow> string \<Rightarrow> string" where
  "ext_scan [] acc = []"
| "ext_scan (c # cs) acc =
     (if c = CHR ''/'' then []
      else if c = CHR ''.'' then c # acc
      else ext_scan cs (c # acc))"

definition filepath_Ext :: "string \<Rightarrow> string" where
  "filepath_Ext p = ext_scan (rev p) []"

text \<open>
  \<open>textproto.CanonicalMIMEHeaderKey\<close>, which \<open>http.Header.Set\<close>, \<open>Get\<close> and
  \<open>Values\<close> apply to the key they are given: a key made of header-token bytes only gets
  an upper-case letter at its start and after every hyphen and lower-case letters
  elsewhere; any other key is returned as it is.  Indexing the header map directly
  (\<open>w.Header()[key]\<close>) does not canonicalise.
\<close>

definition lower_letters :: string where
  "lower_letters = ''abcdefghijklmnopqrstuvwxyz''"

definition upper_letters :: string where
  "upper_letters = ''ABCDEFGHIJKLMNOPQRSTUVWXYZ''"

definition validHeaderFieldByte :: "char \<Rightarrow> bool" where
  "validHeaderFieldByte c \<longleftrightarrow>
     c \<in> set (lower_letters @ upper_letters @ ''0123456789'' @ ''!#$%&*+-.^_|~''
              @ [CHR 0x27, CHR 0x60])"

definition to_upper :: "char \<Rightarrow> char" where
  "to_upper c = (case map_of (zip lower_letters upper_letters) c of Some u \<Rightarrow> u | None \<Rightarrow> c)"

definition to_lower :: "char \<Rightarrow> char" where
  "to_lower c = (case map_of (zip upper_letters lower_letters) c of Some l \<Rightarrow> l | None \<Rightarrow> c)"

fun canonical_bytes :: "bool \<Rightarrow> string \<Rightarrow> string" where
  "canonical_bytes upper [] = []"
| "canonical_bytes upper (c # cs) =
     (let c' = (if upper then to_upper c else to_lower c)
      in c' # canonical_bytes (c' = CHR ''-'') cs)"

definition CanonicalMIMEHeaderKey :: "string \<Rightarrow> string" where
  "CanonicalMIMEHeaderKey s =
     (if list_all validHeaderFieldByte s then canonical_bytes True s else s)"

text \<open>\<open>http.Header\<close> is \<open>map[string][]string\<close>.\<close>

type_synonym header = "string \<rightharpoonup> string list"

definition Header_Set :: "header \<Rightarrow> string \<Rightarrow> string \<Rightarrow> header" where
  "Header_Set h key v = h(CanonicalMIMEHeaderKey key \<mapsto> [v])"

definition Header_Values :: "header \<Rightarrow> string \<Rightarrow> string list" where
  "Header_Values h key = (case h (CanonicalMIMEHeaderKey key) of None \<Rightarrow> [] | Some vs \<Rightarrow> vs)"

definition Header_Get :: "header \<Rightarrow> string \<Rightarrow> string" where
  "Header_Get h key =
     (case h (CanonicalMIMEHeaderKey key) of
        None \<Rightarrow> []
      | Some [] \<Rightarrow> []
      | Some (v # _) \<Rightarrow> v)"

subsection \<open>Data\<close>

text \<open>
  An \<open>error\<close> is either the one that \<open>os.IsNotExist\<close> recognises or any other one.
\<close>

datatype error = ErrNotExist | ErrOther string

fun os_IsNotExist :: "error \<Rightarrow> bool" where
  "os_IsNotExist ErrNotExist = True"
| "os_IsNotExist (ErrOther _) = False"

record FileInfo =
  IsDir :: bool

text \<open>
  An open \<open>*os.File\<close>: the bytes it reads and what \<open>Stat\<close> answers on it, call by
  call (\<open>Stat f n\<close> is the answer to call number \<open>n\<close> on the handle, counted from 0).
  \<open>findFile\<close> makes the first call on a handle it has opened, \<open>serveContent\<close> the
  second call on the handle it is given.  Reading and seeking succeed on a handle whose
  first \<open>Stat\<close> has shown a regular file.
\<close>

record File =
  Stat :: "nat \<Rightarrow> error + FileInfo"
  Data :: string

text \<open>
  The surroundings of the process: the file system as \<open>os.Open\<close> sees it, the regular
  expression compiler, the MIME table of the platform, the content sniffer, and what
  \<open>http.ServeContent\<close> makes of a request that is not plain (see \<open>plain_request\<close>
  below): from the method and the header of the request, the name, the handle and the
  header map of the response to the header map, the status and the body it leaves.
  While one request is served a path opens the same way each time.  Different requests
  may meet different surroundings.
\<close>

record env =
  os_Open :: "string \<Rightarrow> error + File"
  regexp_Compile :: "string \<Rightarrow> error + (string \<Rightarrow> bool)"
  mime_types :: "string \<Rightarrow> string"
  http_DetectContentType :: "string \<Rightarrow> string"
  http_ServeContent_other ::
    "string \<times> header \<Rightarrow> string \<Rightarrow> File \<Rightarrow> header \<Rightarrow> header \<times> nat \<times> string"

text \<open>The fields of \<open>Config\<close> that the request pipeline reads.\<close>

record Config =
  BaseURL :: string
  AllowSkipBaseUrl :: bool
  RootDirs :: "string list"
  Headers :: "(string \<times> string) list"
  HeadersPerPathRegex :: "(string \<times> (string \<times> string) list) list"
  NotFoundRegexs :: "string list"
  FallbackDisabled :: bool
  GzipDisabled :: bool
  BrotliDisabled :: bool
  ImportFallbackRegexp :: string

text \<open>
  The two header maps of \<open>Config\<close> are Go maps, which a \<open>range\<close> loop visits in an
  order of its own choosing; the lists above give the entries in the order of the visit.
\<close>

record Request =
  Method :: string
  URL_Path :: string
  ReqHeader :: header

record world =
  Header :: header
  Status :: "nat option"
  Body :: string
  importFallbackMap :: "string \<rightharpoonup> string"
  opens :: "string list"
  closes :: "File list"
  serves :: "(string \<times> File) list"

text \<open>
  A call either returns or panics (\<open>Must\<close>); in both cases the world it leaves behind
  is kept.
\<close>

datatype 'a go = Return 'a world | Panic error world

datatype lookup = Found File | NotFound | Failed error

subsection \<open>The multi-root lookup\<close>

definition Close :: "File \<Rightarrow> world \<Rightarrow> world" where
  "Close f s = s\<lparr>closes := closes s @ [f]\<rparr>"

text \<open>
  \<open>findFile\<close>, the loop over \<open>RootDirs\<close>.  After an \<open>os.Open\<close> that failed the
  handle is nil and \<open>file.Close()\<close> on it does nothing.
\<close>

fun findFile_roots :: "env \<Rightarrow> string list \<Rightarrow> string \<Rightarrow> world \<Rightarrow> lookup \<times> world" where
  "findFile_roots e [] resourcePath s = (NotFound, s)"
| "findFile_roots e (rootDir # rest) resourcePath s =
     (let filePath = path_Join rootDir resourcePath;
          s1 = s\<lparr>opens := opens s @ [filePath]\<rparr>
      in case os_Open e filePath of
           Inl err \<Rightarrow>
             if \<not> os_IsNotExist err then (Failed err, s1)
             else findFile_roots e rest resourcePath s1
         | Inr file \<Rightarrow>
             (case Stat file 0 of
                Inr info \<Rightarrow>
                  if \<not> IsDir info then (Found file, s1)
                  else findFile_roots e rest resourcePath (Close file s1)
              | Inl err \<Rightarrow>
                  if \<not> os_IsNotExist err then (Failed err, s1)
                  else findFile_roots e rest resourcePath (Close file s1)))"

definition findFile :: "env \<Rightarrow> Config \<Rightarrow> string \<Rightarrow> world \<Rightarrow> lookup \<times> world" where
  "findFile e cfg resourcePath s = findFile_roots e (RootDirs cfg) resourcePath s"

subsection \<open>Content type and header policy\<close>

text \<open>
  \<open>init\<close> registers four extensions with the \<open>mime\<close> package before any request is
  served; every other extension is answered by the table of the platform.
\<close>

definition mime_TypeByExtension :: "env \<Rightarrow> string \<Rightarrow> string" where
  "mime_TypeByExtension e ext =
     (if ext = ''.js'' \<or> ext = ''.mjs'' \<or> ext = ''.cjs'' then ''application/javascript''
      else if ext = ''.svg'' then ''image/svg+xml''
      else mime_types e ext)"

text \<open>
  \<open>regexp.MatchString(pattern, s)\<close> compiles the pattern and reports the compile error
  next to a \<open>false\<close> match.
\<close>

definition regexp_MatchString :: "env \<Rightarrow> string \<Rightarrow> string \<Rightarrow> bool \<times> error option" where
  "regexp_MatchString e pattern str =
     (case regexp_Compile e pattern of
        Inl err \<Rightarrow> (False, Some err)
      | Inr re \<Rightarrow> (re str, None))"

definition resolveMimeType :: "env \<Rightarrow> Config \<Rightarrow> string \<Rightarrow> world \<Rightarrow> string go" where
  "resolveMimeType e cfg resourcePath s =
     (let ctype = mime_TypeByExtension e (filepath_Ext resourcePath)
      in if ctype = [] then
           (case findFile e cfg resourcePath s of
              (Failed err, s1) \<Rightarrow> Panic err s1
            | (Found org, s1) \<Rightarrow>
                Return (http_DetectContentType e (take 512 (Data org))) (Close org s1)
            | (NotFound, s1) \<Rightarrow> Return ctype s1)
         else Return ctype s)"

text \<open>The three passes of \<open>applyHeaders\<close> over the header map of the response.\<close>

definition set_rule_headers :: "(string \<times> string) list \<Rightarrow> header \<Rightarrow> header" where
  "set_rule_headers headers h = fold (\<lambda>(hdr, v) h'. Header_Set h' hdr v) headers h"

definition path_specific_headers :: "env \<Rightarrow> Config \<Rightarrow> string \<Rightarrow> header \<Rightarrow> header" where
  "path_specific_headers e cfg resourcePath h =
     fold (\<lambda>(rx, headers) h'.
             if fst (regexp_MatchString e rx resourcePath) then set_rule_headers headers h'
             else h')
          (HeadersPerPathRegex cfg) h"

definition merge_global_headers :: "Config \<Rightarrow> header \<Rightarrow> header" where
  "merge_global_headers cfg h =
     fold (\<lambda>(key, v) h'. if h' key = None then Header_Set h' key v else h') (Headers cfg) h"

definition default_cache_control :: "string \<Rightarrow> header \<Rightarrow> header" where
  "default_cache_control resourcePath h =
     (if h ''Cache-Control'' = None then
        (if resourcePath \<noteq> ''/index.html''
         then Header_Set h ''Cache-Control'' ''public, max-age=31536000, immutable''
         else Header_Set h ''Cache-Control'' ''no-cache'')
      else h)"

definition applyHeaders :: "env \<Rightarrow> Config \<Rightarrow> string \<Rightarrow> world \<Rightarrow> world" where
  "applyHeaders e cfg resourcePath s =
     s\<lparr>Header := default_cache_control resourcePath
                    (merge_global_headers cfg
                       (path_specific_headers e cfg resourcePath (Header s)))\<rparr>"

subsection \<open>Serving\<close>

text \<open>
  \<open>http.ServeContent\<close> and \<open>http.Error\<close> are the byte-stream responder of the Go
  library.  A request is plain when its method is not \<open>HEAD\<close> and it has no \<open>Range\<close>
  header and none of the four conditional headers; to a plain request
  \<open>http.ServeContent\<close> answers 200 with all the bytes of the handle.  To any other
  request it may answer 206, 304, 412 or 416, send a part of the bytes or none, and
  change the header map; this answer is taken from the surroundings.  The header fields
  that the two functions add on their own account (\<open>Last-Modified\<close>, \<open>Accept-Ranges\<close>,
  \<open>Content-Length\<close>; the type and \<open>nosniff\<close> of an error) are outside the model.
\<close>

definition plain_request :: "Request \<Rightarrow> bool" where
  "plain_request req \<longleftrightarrow>
     Method req \<noteq> ''HEAD''
     \<and> list_all (\<lambda>key. Header_Get (ReqHeader req) key = [])
          [''Range'', ''If-Match'', ''If-None-Match'', ''If-Modified-Since'',
           ''If-Unmodified-Since'']"

definition http_ServeContent :: "env \<Rightarrow> Request \<Rightarrow> string \<Rightarrow> File \<Rightarrow> world \<Rightarrow> world" where
  "http_ServeContent e req name file s =
     (let s1 = s\<lparr>serves := serves s @ [(name, file)]\<rparr>
      in if plain_request req then s1\<lparr>Status := Some 200, Body := Data file\<rparr>
         else (case http_ServeContent_other e (Method req, ReqHeader req) name file (Header s1) of
                 (h, code, body) \<Rightarrow> s1\<lparr>Header := h, Status := Some code, Body := body\<rparr>))"

definition http_Error :: "string \<Rightarrow> nat \<Rightarrow> world \<Rightarrow> world" where
  "http_Error msg code s = s\<lparr>Status := Some code, Body := msg @ [CHR 0x0A]\<rparr>"

definition w_Header_Set :: "string \<Rightarrow> string \<Rightarrow> world \<Rightarrow> world" where
  "w_Header_Set key v s = s\<lparr>Header := Header_Set (Header s) key v\<rparr>"

definition serveContent ::
  "env \<Rightarrow> Config \<Rightarrow> Request \<Rightarrow> string \<Rightarrow> File \<Rightarrow> world \<Rightarrow> error option go" where
  "serveContent e cfg req name file s =
     (let s1 = applyHeaders e cfg name s
      in case Stat file 1 of
           Inl err \<Rightarrow> Panic err s1
         | Inr info \<Rightarrow> Return None (http_ServeContent e req name file s1))"

text \<open>
  \<open>findAndServe\<close>; the deferred \<open>file.Close()\<close> runs on return and on panic alike.
\<close>

definition findAndServe ::
  "env \<Rightarrow> Config \<Rightarrow> string \<Rightarrow> Request \<Rightarrow> world \<Rightarrow> (bool \<times> error option) go" where
  "findAndServe e cfg resourcePath req s =
     (case findFile e cfg resourcePath s of
        (Failed err, s1) \<Rightarrow> Return (False, Some err) s1
      | (Found file, s1) \<Rightarrow>
          (case resolveMimeType e cfg resourcePath s1 of
             Panic x s2 \<Rightarrow> Panic x (Close file s2)
           | Return ctype s2 \<Rightarrow>
               (case serveContent e cfg req resourcePath file
                       (w_Header_Set ''Content-Type'' ctype s2) of
                  Panic x s3 \<Rightarrow> Panic x (Close file s3)
                | Return err s3 \<Rightarrow> Return (err = None, err) (Close file s3)))
      | (NotFound, s1) \<Rightarrow> Return (False, None) s1)"

subsection \<open>Precompressed variants\<close>

definition encodings :: "Config \<Rightarrow> string list" where
  "encodings cfg =
     (if \<not> BrotliDisabled cfg then [''br''] else [])
     @ (if \<not> GzipDisabled cfg then [''gzip''] else [])"

text \<open>
  The function literal inside the loop of \<open>findAndServeEncoded\<close>: the lookup of the
  sibling file of one encoding.  The error of that lookup is assigned to the blank
  identifier.
\<close>

definition lookup_encoded_asset ::
  "env \<Rightarrow> Config \<Rightarrow> string \<Rightarrow> Request \<Rightarrow> string \<Rightarrow> world \<Rightarrow> (bool \<times> error option) go" where
  "lookup_encoded_asset e cfg resourcePath req encoding s =
     (let ext = (if encoding = ''gzip'' then ''gz'' else encoding)
      in case findFile e cfg (resourcePath @ ''.'' @ ext) s of
           (Found file, s1) \<Rightarrow>
             (case resolveMimeType e cfg resourcePath
                     (w_Header_Set ''Content-Encoding'' encoding s1) of
                Panic x s2 \<Rightarrow> Panic x (Close file s2)
              | Return ctype s2 \<Rightarrow>
                  (case serveContent e cfg req resourcePath file
                          (w_Header_Set ''Content-Type'' ctype s2) of
                     Panic x s3 \<Rightarrow> Panic x (Close file s3)
                   | Return err s3 \<Rightarrow> Return (err = None, err) (Close file s3)))
         | (Failed err, s1) \<Rightarrow> Return (False, None) s1
         | (NotFound, s1) \<Rightarrow> Return (False, None) s1)"

definition accepts_encoding :: "Request \<Rightarrow> string \<Rightarrow> bool" where
  "accepts_encoding req encoding =
     list_ex (\<lambda>enc. strings_HasPrefix enc encoding)
             (Header_Values (ReqHeader req) ''Accept-Encoding'')"

fun findAndServeEncoded_loop ::
  "env \<Rightarrow> Config \<Rightarrow> string \<Rightarrow> Request \<Rightarrow> string list \<Rightarrow> world \<Rightarrow> (bool \<times> error option) go" where
  "findAndServeEncoded_loop e cfg resourcePath req [] s = findAndServe e cfg resourcePath req s"
| "findAndServeEncoded_loop e cfg resourcePath req (encoding # rest) s =
     (if accepts_encoding req encoding then
        (case lookup_encoded_asset e cfg resourcePath req encoding s of
           Panic x s1 \<Rightarrow> Panic x s1
         | Return (found, err) s1 \<Rightarrow>
             if found \<or> err \<noteq> None then Return (found, err) s1
             else findAndServeEncoded_loop e cfg resourcePath req rest s1)
      else findAndServeEncoded_loop e cfg resourcePath req rest s)"

definition findAndServeEncoded ::
  "env \<Rightarrow> Config \<Rightarrow> string \<Rightarrow> Request \<Rightarrow> world \<Rightarrow> (bool \<times> error option) go" where
  "findAndServeEncoded e cfg resourcePath req s =
     findAndServeEncoded_loop e cfg resourcePath req (encodings cfg) s"

subsection \<open>Import fallback\<close>

text \<open>\<open>importFallbackMap.Store(key, value)\<close>.\<close>

definition Store :: "string \<Rightarrow> string \<Rightarrow> world \<Rightarrow> world" where
  "Store key v s = s\<lparr>importFallbackMap := (importFallbackMap s)(key \<mapsto> v)\<rparr>"

text \<open>
  The check of \<open>ImportFallbackRegexp\<close> after a cache miss: \<open>Some r\<close> is the early
  return with \<open>r\<close>, \<open>None\<close> lets the suffix search run.
\<close>

definition importFallback_regexp :: "env \<Rightarrow> Config \<Rightarrow> string \<Rightarrow> (bool \<times> error option) option" where
  "importFallback_regexp e cfg resourcePath =
     (if ImportFallbackRegexp cfg \<noteq> [] then
        (case regexp_Compile e (ImportFallbackRegexp cfg) of
           Inl err \<Rightarrow> Some (False, Some err)
         | Inr re \<Rightarrow> if \<not> re resourcePath then Some (False, None) else None)
      else None)"

text \<open>
  One suffix of the search.  The variables \<open>realPath\<close>, \<open>found\<close> and \<open>err\<close> of
  \<open>importFallback\<close> are the triple; a suffix is tried only while the search has
  neither found the file nor failed, which is so at the start, where \<open>.mjs\<close> is tried
  without a test.
\<close>

definition importFallback_next ::
  "env \<Rightarrow> Config \<Rightarrow> string \<Rightarrow> Request \<Rightarrow> string \<Rightarrow> (string \<times> bool \<times> error option) go
     \<Rightarrow> (string \<times> bool \<times> error option) go" where
  "importFallback_next e cfg resourcePath req suf prev =
     (case prev of
        Panic x s \<Rightarrow> Panic x s
      | Return (realPath, found, err) s \<Rightarrow>
          if \<not> found \<and> err = None then
            (case findAndServeEncoded e cfg (resourcePath @ suf) req s of
               Panic x s1 \<Rightarrow> Panic x s1
             | Return (found1, err1) s1 \<Rightarrow> Return (resourcePath @ suf, found1, err1) s1)
          else Return (realPath, found, err) s)"

definition importFallback_search ::
  "env \<Rightarrow> Config \<Rightarrow> string \<Rightarrow> Request \<Rightarrow> world \<Rightarrow> (bool \<times> error option) go" where
  "importFallback_search e cfg resourcePath req s =
     (case importFallback_next e cfg resourcePath req ''.cjs''
             (importFallback_next e cfg resourcePath req ''.js''
                (importFallback_next e cfg resourcePath req ''.mjs''
                   (Return ([], False, None) s))) of
        Panic x s1 \<Rightarrow> Panic x s1
      | Return (realPath, found, err) s1 \<Rightarrow>
          if found then Return (found, err) (Store resourcePath realPath s1)
          else Return (found, err) s1)"

definition importFallback ::
  "env \<Rightarrow> Config \<Rightarrow> string \<Rightarrow> Request \<Rightarrow> world \<Rightarrow> (bool \<times> error option) go" where
  "importFallback e cfg resourcePath req s =
     (if \<not> strings_HasPrefix (ImportFallbackRegexp cfg) ''disable''
         \<and> \<not> strings_HasSuffix resourcePath ''.mjs''
         \<and> \<not> strings_HasSuffix resourcePath ''.js''
         \<and> \<not> strings_HasSuffix resourcePath ''.cjs''
      then
        (case importFallbackMap s resourcePath of
           Some realPath \<Rightarrow> findAndServeEncoded e cfg realPath req s
         | None \<Rightarrow>
             (case importFallback_regexp e cfg resourcePath of
                Some r \<Rightarrow> Return r s
              | None \<Rightarrow> importFallback_search e cfg resourcePath req s))
      else Return (False, None) s)"

subsection \<open>Fallback to the entry document\<close>

definition fallback :: "env \<Rightarrow> Config \<Rightarrow> Request \<Rightarrow> world \<Rightarrow> (bool \<times> error option) go" where
  "fallback e cfg req s =
     (if FallbackDisabled cfg then Return (False, None) s
      else if length (Header_Get (ReqHeader req) ''Accept'') \<noteq> 0
              \<and> \<not> list_ex (\<lambda>acp. strings_HasPrefix acp ''text/html'')
                           (Header_Values (ReqHeader req) ''Accept'')
        then Return (False, None) s
      else if list_ex (\<lambda>regex. fst (regexp_MatchString e regex (URL_Path req)))
                      (NotFoundRegexs cfg)
        then Return (False, None) s
      else findAndServeEncoded e cfg ''/index.html'' req s)"

subsection \<open>The handler\<close>

text \<open>
  The first part of \<open>handler\<close>: the resource path of a request, \<open>None\<close> where the
  handler answers "base url mismatch" and returns.
\<close>

definition handler_resourcePath :: "Config \<Rightarrow> Request \<Rightarrow> string option" where
  "handler_resourcePath cfg req =
     (let stripped =
            (if BaseURL cfg \<noteq> [] then
               (if strings_HasPrefix (URL_Path req) (BaseURL cfg)
                  then Some (drop (length (BaseURL cfg)) (URL_Path req))
                else if URL_Path req @ ''/'' = BaseURL cfg then Some []
                else if \<not> AllowSkipBaseUrl cfg then None
                else Some (URL_Path req))
             else Some (URL_Path req))
      in case stripped of
           None \<Rightarrow> None
         | Some resourcePath \<Rightarrow> Some (if resourcePath = [] then ''index.html'' else resourcePath))"

text \<open>The three stages of \<open>handler\<close>, each run only after a miss without error.\<close>

definition handler_stages ::
  "env \<Rightarrow> Config \<Rightarrow> string \<Rightarrow> Request \<Rightarrow> world \<Rightarrow> (bool \<times> error option) go" where
  "handler_stages e cfg resourcePath req s =
     (case findAndServeEncoded e cfg resourcePath req s of
        Panic x s1 \<Rightarrow> Panic x s1
      | Return (found, err) s1 \<Rightarrow>
          (case (if \<not> found \<and> err = None then importFallback e cfg resourcePath req s1
                 else Return (found, err) s1) of
             Panic x s2 \<Rightarrow> Panic x s2
           | Return (found2, err2) s2 \<Rightarrow>
               if \<not> found2 \<and> err2 = None then fallback e cfg req s2
               else Return (found2, err2) s2))"

text \<open>The rest of \<open>handler\<close> once the resource path is known.\<close>

definition handler_serve :: "env \<Rightarrow> Config \<Rightarrow> string \<Rightarrow> Request \<Rightarrow> world \<Rightarrow> unit go" where
  "handler_serve e cfg resourcePath req s =
     (case handler_stages e cfg resourcePath req s of
        Panic x s1 \<Rightarrow> Panic x s1
      | Return (found, err) s1 \<Rightarrow>
          if err \<noteq> None then Return () (http_Error ''Internal Server Error'' 500 s1)
          else if \<not> found then Return () (http_Error ''Not Found'' 404 s1)
          else Return () s1)"

definition handler :: "env \<Rightarrow> Config \<Rightarrow> Request \<Rightarrow> world \<Rightarrow> unit go" where
  "handler e cfg req s =
     (case handler_resourcePath cfg req of
        None \<Rightarrow> Return () (http_Error ''Not Found'' 404 s)
      | Some resourcePath \<Rightarrow> handler_serve e cfg resourcePath req s)"

text \<open>
  A request arrives with a response writer of its own; the import-fallback map is the
  one of the process.
\<close>

definition fresh_writer :: "world \<Rightarrow> world" where
  "fresh_writer s = s\<lparr>Header := Map.empty, Status := None, Body := []\<rparr>"

definition ServeHTTP :: "env \<Rightarrow> Config \<Rightarrow> Request \<Rightarrow> world \<Rightarrow> unit go" where
  "ServeHTTP e cfg req s = handler e cfg req (fresh_writer s)"

definition world_of :: "'a go \<Rightarrow> world" where
  "world_of r = (case r of Return _ s \<Rightarrow> s | Panic _ s \<Rightarrow> s)"

definition start :: world where
  "start = \<lparr>Header = Map.empty, Status = None, Body = [], importFallbackMap = Map.empty,
            opens = [], closes = [], serves = []\<rparr>"

text \<open>
  The requests of a process one after the other, each under the file system of its
  moment; a handler that panics is recovered by the server and the process goes on.
\<close>

fun serve_all :: "Config \<Rightarrow> (env \<times> Request) list \<Rightarrow> world \<Rightarrow> world" where
  "serve_all cfg [] s = s"
| "serve_all cfg ((e, req) # rest) s = serve_all cfg rest (world_of (ServeHTTP e cfg req s))"

subsection \<open>Words of the specification\<close>

text \<open>
  The import fallback applies when the feature is not disabled and the resource path
  does not end in \<open>.mjs\<close>, \<open>.js\<close> or \<open>.cjs\<close>.  A non-empty
  \<open>ImportFallbackRegexp\<close> that compiles rejects the paths it does not match and admits
  the others; an empty one admits every path; one that does not compile neither rejects
  nor admits.
\<close>

definition import_fallback_applies :: "Config \<Rightarrow> string \<Rightarrow> bool" where
  "import_fallback_applies cfg resourcePath \<longleftrightarrow>
     \<not> strings_HasPrefix (ImportFallbackRegexp cfg) ''disable''
     \<and> \<not> strings_HasSuffix resourcePath ''.mjs''
     \<and> \<not> strings_HasSuffix resourcePath ''.js''
     \<and> \<not> strings_HasSuffix resourcePath ''.cjs''"

definition restriction_rejects :: "env \<Rightarrow> Config \<Rightarrow> string \<Rightarrow> bool" where
  "restriction_rejects e cfg resourcePath \<longleftrightarrow>
     ImportFallbackRegexp cfg \<noteq> []
     \<and> (case regexp_Compile e (ImportFallbackRegexp cfg) of
          Inl err \<Rightarrow> False
        | Inr re \<Rightarrow> \<not> re resourcePath)"

definition restriction_admits :: "env \<Rightarrow> Config \<Rightarrow> string \<Rightarrow> bool" where
  "restriction_admits e cfg resourcePath \<longleftrightarrow>
     ImportFallbackRegexp cfg = []
     \<or> (case regexp_Compile e (ImportFallbackRegexp cfg) of
          Inl err \<Rightarrow> False
        | Inr re \<Rightarrow> re resourcePath)"

text \<open>
  What the lookup answers for a path does not depend on the world it starts in;
  \<open>lookup_result\<close> is that answer.  The sibling of a path for an encoding is the path
  with \<open>.br\<close> or \<open>.gz\<close> appended, and no variant is found for a request when none
  of the enabled encodings that the request accepts has a sibling that the lookup finds.
\<close>

definition lookup_result :: "env \<Rightarrow> Config \<Rightarrow> string \<Rightarrow> lookup" where
  "lookup_result e cfg resourcePath = fst (findFile e cfg resourcePath start)"





text \<open>
  In the words of the specification the values of the \<open>Accept\<close> header are its media
  ranges: the pieces of the header lines between the commas, without the blanks in front
  of them.  \<open>accept_values\<close> follows these words; the code does not split a line.

  The \<open>Accept\<close> header of a request is simple when none of its lines is empty and
  every line that names \<open>text/html\<close> at the start of a media range does so with its
  first one.  A request without the header is simple.
\<close>

fun comma_pieces :: "string \<Rightarrow> string list" where
  "comma_pieces [] = [[]]"
| "comma_pieces (c # cs) =
     (if c = CHR '','' then [] # comma_pieces cs
      else (case comma_pieces cs of
              [] \<Rightarrow> [[c]]
            | piece # pieces \<Rightarrow> (c # piece) # pieces))"

definition media_ranges :: "string \<Rightarrow> string list" where
  "media_ranges line = map (dropWhile (\<lambda>c. c = CHR '' '')) (comma_pieces line)"

definition accept_values :: "Request \<Rightarrow> string list" where
  "accept_values req = concat (map media_ranges (Header_Values (ReqHeader req) ''Accept''))"

definition simple_accept :: "Request \<Rightarrow> bool" where
  "simple_accept req \<longleftrightarrow>
     list_all (\<lambda>line. line \<noteq> []
                  \<and> (strings_HasPrefix line ''text/html''
                       \<or> \<not> list_ex (\<lambda>mr. strings_HasPrefix mr ''text/html'')
                                    (media_ranges line)))
              (Header_Values (ReqHeader req) ''Accept'')"

text \<open>A header map is single-valued when every name in it has exactly one value.\<close>

definition single_valued :: "header \<Rightarrow> bool" where
  "single_valued h \<longleftrightarrow> (\<forall>k vs. h k = Some vs \<longrightarrow> length vs = 1)"

subsection \<open>Example surroundings\<close>

text \<open>
  Concrete files, surroundings and configurations, on which the statements below are
  evaluated.
\<close>

definition regular :: "string \<Rightarrow> File" where
  "regular d = \<lparr>Stat = (\<lambda>n. Inr \<lparr>IsDir = False\<rparr>), Data = d\<rparr>"

definition directory :: File where
  "directory = \<lparr>Stat = (\<lambda>n. Inr \<lparr>IsDir = True\<rparr>), Data = []\<rparr>"

text \<open>
  The part of the built-in table of the \<open>mime\<close> package that the examples meet; an
  extension outside it has no type.
\<close>

definition builtin_types :: "string \<Rightarrow> string" where
  "builtin_types ext =
     (if ext = ''.html'' then ''text/html; charset=utf-8''
      else if ext = ''.json'' then ''application/json''
      else [])"

definition plain_env :: "(string \<Rightarrow> error + File) \<Rightarrow> env" where
  "plain_env fs =
     \<lparr>os_Open = fs, regexp_Compile = (\<lambda>p. Inl (ErrOther ''no pattern'')),
      mime_types = builtin_types,
      http_DetectContentType = (\<lambda>d. ''application/octet-stream''),
      http_ServeContent_other = (\<lambda>req name file h. (h, 304, []))\<rparr>"

definition plain_cfg :: "string list \<Rightarrow> Config" where
  "plain_cfg roots =
     \<lparr>BaseURL = [], AllowSkipBaseUrl = False, RootDirs = roots, Headers = [],
      HeadersPerPathRegex = [], NotFoundRegexs = [], FallbackDisabled = False,
      GzipDisabled = False, BrotliDisabled = False, ImportFallbackRegexp = []\<rparr>"

definition two_roots_fs :: "string \<Rightarrow> error + File" where
  "two_roots_fs p =
     (if p = ''/a/app.js'' then Inr (regular ''from A'')
      else if p = ''/b/app.js'' then Inr (regular ''from B'')
      else if p = ''/a/docs'' then Inr directory
      else if p = ''/b/docs'' then Inr (regular ''docs of B'')
      else Inl ErrNotExist)"

definition get :: "string \<Rightarrow> Request" where
  "get p = \<lparr>Method = ''GET'', URL_Path = p, ReqHeader = Map.empty\<rparr>"

definition app_cfg :: "bool \<Rightarrow> Config" where
  "app_cfg allow =
     (plain_cfg [''/spa/public''])\<lparr>BaseURL := ''/app/'', AllowSkipBaseUrl := allow\<rparr>"

definition entry_fs :: "string \<Rightarrow> error + File" where
  "entry_fs p =
     (if p = ''/spa/public/index.html'' then Inr (regular ''<html>Home</html>'')
      else if p = ''/spa/public'' then Inr directory
      else Inl ErrNotExist)"

text \<open>
  Of the regular expressions only \<open>^/app/\<close> is known to the example: it matches the
  strings that start with \<open>/app/\<close>.
\<close>

definition app_regexp :: "string \<Rightarrow> error + (string \<Rightarrow> bool)" where
  "app_regexp pattern =
     (if pattern = ''^/app/'' then Inr (\<lambda>str. prefix ''/app/'' str)
      else Inl (ErrOther ''pattern outside the example''))"

definition entry_env :: env where
  "entry_env = (plain_env entry_fs)\<lparr>regexp_Compile := app_regexp\<rparr>"

definition app_nofallback_cfg :: Config where
  "app_nofallback_cfg = (app_cfg False)\<lparr>NotFoundRegexs := [''^/app/'']\<rparr>"

definition get_accepting :: "string \<Rightarrow> string \<Rightarrow> Request" where
  "get_accepting p a =
     \<lparr>Method = ''GET'', URL_Path = p, ReqHeader = [''Accept'' \<mapsto> [a]]\<rparr>"

definition after_missing :: world where
  "after_missing = start\<lparr>opens := [''/spa/public/missing'', ''/spa/public/missing.mjs'',
      ''/spa/public/missing.js'', ''/spa/public/missing.cjs'']\<rparr>"

definition module_fs :: "string \<Rightarrow> error + File" where
  "module_fs p =
     (if p = ''/spa/public/mod.js'' then Inr (regular ''export default 1'')
      else if p = ''/spa/public/both.mjs'' then Inr (regular ''mjs of both'')
      else if p = ''/spa/public/both.js'' then Inr (regular ''js of both'')
      else if p = ''/spa/public/old.cjs'' then Inr (regular ''module.exports = 1'')
      else Inl ErrNotExist)"

definition module_env :: env where
  "module_env = (plain_env module_fs)\<lparr>regexp_Compile := app_regexp\<rparr>"

definition bundle_fs :: "string \<Rightarrow> error + File" where
  "bundle_fs p =
     (if p = ''/spa/public/app.js'' then Inr (regular ''plain'')
      else if p = ''/spa/public/app.js.br'' then Inr (regular ''BR'')
      else if p = ''/spa/public/app.js.gz'' then Inr (regular ''GZ'')
      else Inl ErrNotExist)"

definition get_encoded :: "string \<Rightarrow> string \<Rightarrow> Request" where
  "get_encoded p ae =
     \<lparr>Method = ''GET'', URL_Path = p, ReqHeader = [''Accept-Encoding'' \<mapsto> [ae]]\<rparr>"








text \<open>
  Of the regular expressions only \<open>(\<close> is known to the third example: it does not
  compile.
\<close>

definition paren_regexp :: "string \<Rightarrow> error + (string \<Rightarrow> bool)" where
  "paren_regexp pattern =
     (if pattern = ''('' then Inl (ErrOther ''error parsing regexp: missing closing )'')
      else Inl (ErrOther ''pattern outside the example''))"

definition paren_env :: env where
  "paren_env = (plain_env module_fs)\<lparr>regexp_Compile := paren_regexp\<rparr>"

definition paren_cfg :: Config where
  "paren_cfg = (plain_cfg [''/spa/public''])\<lparr>ImportFallbackRegexp := ''(''\<rparr>"

text \<open>The configuration as shipped: base URL \<open>/\<close>, one root.\<close>

definition root_cfg :: Config where
  "root_cfg = (plain_cfg [''/spa/public''])\<lparr>BaseURL := ''/''\<rparr>"

definition json_fs :: "string \<Rightarrow> error + File" where
  "json_fs p =
     (if p = ''/spa/public/data.json'' then Inr (regular ''{}'')
      else Inl ErrNotExist)"

text \<open>
  Of the regular expressions only \<open>[.]json$\<close> is known to the second example: it
  matches the strings that end in \<open>.json\<close>.
\<close>

definition json_regexp :: "string \<Rightarrow> error + (string \<Rightarrow> bool)" where
  "json_regexp pattern =
     (if pattern = ''[.]json$'' then Inr (\<lambda>str. suffix ''.json'' str)
      else Inl (ErrOther ''pattern outside the example''))"

definition json_env :: env where
  "json_env = (plain_env json_fs)\<lparr>regexp_Compile := json_regexp\<rparr>"

definition header_cfg :: "string \<Rightarrow> Config" where
  "header_cfg name =
     (plain_cfg [''/spa/public''])
       \<lparr>Headers := [(name, ''no-cache'')],
        HeadersPerPathRegex := [(''[.]json$'', [(name, ''immutable'')])]\<rparr>"

section \<open>Properties\<close>

subsection \<open>Fields that the helpers leave alone\<close>

lemma applyHeaders_fields [simp]:
  "Status (applyHeaders e cfg p s) = Status s"
  "Body (applyHeaders e cfg p s) = Body s"
  "opens (applyHeaders e cfg p s) = opens s"
  "closes (applyHeaders e cfg p s) = closes s"
  "importFallbackMap (applyHeaders e cfg p s) = importFallbackMap s"
  "serves (applyHeaders e cfg p s) = serves s"
  by (simp_all add: applyHeaders_def)

lemma w_Header_Set_fields [simp]:
  "Status (w_Header_Set k v s) = Status s"
  "Body (w_Header_Set k v s) = Body s"
  "opens (w_Header_Set k v s) = opens s"
  "closes (w_Header_Set k v s) = closes s"
  "importFallbackMap (w_Header_Set k v s) = importFallbackMap s"
  "serves (w_Header_Set k v s) = serves s"
  by (simp_all add: w_Header_Set_def)

lemma Close_fields [simp]:
  "Status (Close f s) = Status s"
  "Body (Close f s) = Body s"
  "Header (Close f s) = Header s"
  "opens (Close f s) = opens s"
  "closes (Close f s) = closes s @ [f]"
  "importFallbackMap (Close f s) = importFallbackMap s"
  "serves (Close f s) = serves s"
  by (simp_all add: Close_def)

lemma http_ServeContent_fields [simp]:
  "opens (http_ServeContent e req n f s) = opens s"
  "closes (http_ServeContent e req n f s) = closes s"
  "importFallbackMap (http_ServeContent e req n f s) = importFallbackMap s"
  "serves (http_ServeContent e req n f s) = serves s @ [(n, f)]"
  by (simp_all add: http_ServeContent_def Let_def split: prod.splits)

lemma http_ServeContent_plain [simp]:
  assumes "plain_request req"
  shows "Status (http_ServeContent e req n f s) = Some 200"
    and "Body (http_ServeContent e req n f s) = Data f"
    and "Header (http_ServeContent e req n f s) = Header s"
  using assms by (simp_all add: http_ServeContent_def)

lemma http_Error_fields [simp]:
  "Status (http_Error m c s) = Some c"
  "Body (http_Error m c s) = m @ [CHR 0x0A]"
  "Header (http_Error m c s) = Header s"
  "opens (http_Error m c s) = opens s"
  "closes (http_Error m c s) = closes s"
  "importFallbackMap (http_Error m c s) = importFallbackMap s"
  "serves (http_Error m c s) = serves s"
  by (simp_all add: http_Error_def)

lemma world_of_simps [simp]:
  "world_of (Return x s) = s"
  "world_of (Panic err s) = s"
  by (simp_all add: world_of_def)

subsection \<open>The lookup\<close>

text \<open>What the lookup finds does not depend on the world it starts in.\<close>

lemma findFile_roots_result:
  "fst (findFile_roots e roots p s) = fst (findFile_roots e roots p t)"
proof (induction roots arbitrary: s t)
  case Nil
  then show ?case by simp
next
  case (Cons a roots)
  show ?case
    by (simp add: Let_def
        Cons.IH [of "s\<lparr>opens := opens s @ [path_Join a p]\<rparr>"
                    "t\<lparr>opens := opens t @ [path_Join a p]\<rparr>"]
        Cons.IH [of "Close f (s\<lparr>opens := opens s @ [path_Join a p]\<rparr>)"
                    "Close f (t\<lparr>opens := opens t @ [path_Join a p]\<rparr>)" for f]
        split: sum.splits)
qed

lemma findFile_result: "fst (findFile e cfg p s) = fst (findFile e cfg p t)"
  unfolding findFile_def by (rule findFile_roots_result)

lemma findFile_roots_fields:
  "findFile_roots e roots p s = (r, s') \<Longrightarrow>
     Status s' = Status s \<and> Body s' = Body s \<and> Header s' = Header s
     \<and> importFallbackMap s' = importFallbackMap s \<and> serves s' = serves s"
proof (induction roots arbitrary: s)
  case Nil
  then show ?case by simp
next
  case (Cons a roots)
  then show ?case
    by (fastforce simp: Let_def split: sum.splits if_splits)
qed

lemma findFile_fields:
  "findFile e cfg p s = (r, s') \<Longrightarrow>
     Status s' = Status s \<and> Body s' = Body s \<and> Header s' = Header s
     \<and> importFallbackMap s' = importFallbackMap s \<and> serves s' = serves s"
  unfolding findFile_def by (rule findFile_roots_fields)

lemma findFile_directory_then_file:
  assumes "RootDirs cfg = [A, B]"
    and "os_Open e (path_Join A p) = Inr dA"
    and "Stat dA 0 = Inr iA" and "IsDir iA"
    and "os_Open e (path_Join B p) = Inr fB"
    and "Stat fB 0 = Inr iB" and "\<not> IsDir iB"
  shows "findFile e cfg p s =
           (Found fB, s\<lparr>opens := opens s @ [path_Join A p, path_Join B p],
                        closes := closes s @ [dA]\<rparr>)"
  using assms by (simp add: findFile_def Close_def)

text \<open>
  A file that the lookup has found is handed to \<open>http.ServeContent\<close> under the resource
  path, provided the second \<open>Stat\<close> on its handle succeeds.
\<close>

lemma findAndServe_found:
  assumes "findFile e cfg p s = (Found f, s1)" and "Stat f 1 = Inr i"
  shows "\<exists>s'. findAndServe e cfg p req s = Return (True, None) s'
           \<and> serves s' = serves s @ [(p, f)]
           \<and> importFallbackMap s' = importFallbackMap s
           \<and> (plain_request req \<longrightarrow> Status s' = Some 200 \<and> Body s' = Data f)"
proof -
  obtain t where t: "findFile e cfg p s1 = (Found f, t)"
    using findFile_result [of e cfg p s1 s] assms(1) by (cases "findFile e cfg p s1") simp
  show ?thesis
    using assms t findFile_fields [OF assms(1)] findFile_fields [OF t]
    by (simp add: findAndServe_def resolveMimeType_def serveContent_def Let_def)
qed

subsection \<open>Runs without precompressed variants\<close>

lemma accepts_encoding_get [simp]: "accepts_encoding (get p) enc = False"
  by (simp add: accepts_encoding_def get_def Header_Values_def)

lemma index_served:
  assumes "RootDirs cfg = [''/spa/public'']"
  shows "\<exists>s'. findAndServe entry_env cfg ''/index.html'' req s = Return (True, None) s'"
proof -
  have j: "path_Join ''/spa/public'' ''/index.html'' = ''/spa/public/index.html''"
    by code_simp
  have "findFile entry_env cfg ''/index.html'' s
          = (Found (regular ''<html>Home</html>''),
             s\<lparr>opens := opens s @ [''/spa/public/index.html'']\<rparr>)"
    by (simp add: findFile_def assms j entry_env_def plain_env_def entry_fs_def regular_def)
  from findAndServe_found [OF this, of "\<lparr>IsDir = False\<rparr>" req] show ?thesis
    by (auto simp add: regular_def)
qed

lemma findAndServeEncoded_loop_none:
  "list_all (\<lambda>enc. \<not> accepts_encoding req enc) encs \<Longrightarrow>
     findAndServeEncoded_loop e cfg p req encs s = findAndServe e cfg p req s"
  by (induction encs arbitrary: s) simp_all

lemma findAndServeEncoded_plain:
  "\<not> accepts_encoding req ''br'' \<Longrightarrow> \<not> accepts_encoding req ''gzip'' \<Longrightarrow>
     findAndServeEncoded e cfg p req s = findAndServe e cfg p req s"
  by (simp add: findAndServeEncoded_def encodings_def findAndServeEncoded_loop_none)

lemma findFile_roots_missing:
  "list_all (\<lambda>root. os_Open e (path_Join root p) = Inl ErrNotExist) roots \<Longrightarrow>
     findFile_roots e roots p s = (NotFound, s\<lparr>opens := opens s @ map (\<lambda>root. path_Join root p) roots\<rparr>)"
  by (induction roots arbitrary: s) simp_all

lemma findAndServe_missing:
  "list_all (\<lambda>root. os_Open e (path_Join root p) = Inl ErrNotExist) (RootDirs cfg) \<Longrightarrow>
     findAndServe e cfg p req s
       = Return (False, None) (s\<lparr>opens := opens s @ map (\<lambda>root. path_Join root p) (RootDirs cfg)\<rparr>)"
  by (simp add: findAndServe_def findFile_def findFile_roots_missing)

lemma importFallback_search_missing:
  assumes "findAndServeEncoded e cfg (p @ ''.mjs'') req s = Return (False, None) s1"
    and "findAndServeEncoded e cfg (p @ ''.js'') req s1 = Return (False, None) s2"
    and "findAndServeEncoded e cfg (p @ ''.cjs'') req s2 = Return (False, None) s3"
  shows "importFallback_search e cfg p req s = Return (False, None) s3"
  using assms by (simp add: importFallback_search_def importFallback_next_def)

lemma join_public:
  "path_Join ''/spa/public'' ''/missing'' = ''/spa/public/missing''"
  "path_Join ''/spa/public'' ''/missing.mjs'' = ''/spa/public/missing.mjs''"
  "path_Join ''/spa/public'' ''/missing.js'' = ''/spa/public/missing.js''"
  "path_Join ''/spa/public'' ''/missing.cjs'' = ''/spa/public/missing.cjs''"
  "path_Join ''/spa/public'' ''missing'' = ''/spa/public/missing''"
  "path_Join ''/spa/public'' ''missing.mjs'' = ''/spa/public/missing.mjs''"
  "path_Join ''/spa/public'' ''missing.js'' = ''/spa/public/missing.js''"
  "path_Join ''/spa/public'' ''missing.cjs'' = ''/spa/public/missing.cjs''"
  "path_Join ''/spa/public'' ''/index.html'' = ''/spa/public/index.html''"
  "path_Join ''/spa/public'' ''index.html'' = ''/spa/public/index.html''"
  by code_simp+

lemma entry_env_simps [simp]:
  "os_Open entry_env = entry_fs"
  "regexp_Compile entry_env = app_regexp"
  "mime_types entry_env = builtin_types"
  by (simp_all add: entry_env_def plain_env_def)

lemma plain_cfg_simps [simp]:
  "RootDirs (plain_cfg roots) = roots"
  "BaseURL (plain_cfg roots) = []"
  "NotFoundRegexs (plain_cfg roots) = []"
  "FallbackDisabled (plain_cfg roots) = False"
  "ImportFallbackRegexp (plain_cfg roots) = []"
  "Headers (plain_cfg roots) = []"
  "HeadersPerPathRegex (plain_cfg roots) = []"
  "BrotliDisabled (plain_cfg roots) = False"
  "GzipDisabled (plain_cfg roots) = False"
  by (simp_all add: plain_cfg_def)

lemma get_simps [simp]:
  "URL_Path (get p) = p"
  "ReqHeader (get p) = Map.empty"
  "Method (get p) = ''GET''"
  by (simp_all add: get_def)

lemma canonical_keys [simp]:
  "CanonicalMIMEHeaderKey ''Accept'' = ''Accept''"
  "CanonicalMIMEHeaderKey ''Accept-Encoding'' = ''Accept-Encoding''"
  "CanonicalMIMEHeaderKey ''Content-Type'' = ''Content-Type''"
  "CanonicalMIMEHeaderKey ''Content-Encoding'' = ''Content-Encoding''"
  "CanonicalMIMEHeaderKey ''Cache-Control'' = ''Cache-Control''"
  by code_simp+

lemma get_accepting_simps [simp]:
  "URL_Path (get_accepting p a) = p"
  "Header_Get (ReqHeader (get_accepting p a)) ''Accept'' = a"
  "Header_Values (ReqHeader (get_accepting p a)) ''Accept'' = [a]"
  "accepts_encoding (get_accepting p a) enc = False"
  by (simp_all add: get_accepting_def Header_Get_def Header_Values_def accepts_encoding_def)

lemma Header_empty [simp]:
  "Header_Get Map.empty key = []"
  "Header_Values Map.empty key = []"
  by (simp_all add: Header_Get_def Header_Values_def)

lemma plain_request_get [simp]: "plain_request (get p)"
  by (simp add: plain_request_def)

lemma missing_primary:
  assumes "RootDirs cfg = [''/spa/public'']"
    and "\<not> accepts_encoding req ''br''" and "\<not> accepts_encoding req ''gzip''"
  shows "findAndServeEncoded entry_env cfg ''/missing'' req s
     = Return (False, None) (s\<lparr>opens := opens s @ [''/spa/public/missing'']\<rparr>)"
  using assms
  by (simp add: findAndServeEncoded_plain findAndServe_missing join_public entry_fs_def)

lemma missing_import:
  assumes "RootDirs cfg = [''/spa/public'']" and "ImportFallbackRegexp cfg = []"
    and "importFallbackMap s ''/missing'' = None"
    and "\<not> accepts_encoding req ''br''" and "\<not> accepts_encoding req ''gzip''"
  shows "importFallback entry_env cfg ''/missing'' req s
     = Return (False, None)
         (s\<lparr>opens := opens s @ [''/spa/public/missing.mjs'', ''/spa/public/missing.js'',
                                  ''/spa/public/missing.cjs'']\<rparr>)"
proof -
  have "importFallback_search entry_env cfg ''/missing'' req s
     = Return (False, None)
         (s\<lparr>opens := opens s @ [''/spa/public/missing.mjs'', ''/spa/public/missing.js'',
                                  ''/spa/public/missing.cjs'']\<rparr>)"
    by (simp add: importFallback_search_def importFallback_next_def assms
        findAndServeEncoded_plain findAndServe_missing join_public entry_fs_def)
  then show ?thesis
    using assms
    by (simp add: importFallback_def importFallback_regexp_def strings_HasPrefix_def
        strings_HasSuffix_def suffix_to_prefix)
qed

lemma missing_stages:
  assumes "RootDirs cfg = [''/spa/public'']" and "ImportFallbackRegexp cfg = []"
    and "\<not> accepts_encoding req ''br''" and "\<not> accepts_encoding req ''gzip''"
  shows "findAndServeEncoded entry_env cfg ''/missing'' req start
           = Return (False, None) (start\<lparr>opens := [''/spa/public/missing'']\<rparr>)"
    and "importFallback entry_env cfg ''/missing'' req (start\<lparr>opens := [''/spa/public/missing'']\<rparr>)
           = Return (False, None) after_missing"
  using assms
  by (simp_all add: missing_primary missing_import start_def after_missing_def)

subsection \<open>The negotiation leaves the import-fallback map alone\<close>

lemma resolveMimeType_map:
  "importFallbackMap (world_of (resolveMimeType e cfg p s)) = importFallbackMap s"
  by (auto simp add: resolveMimeType_def Let_def split: prod.splits lookup.splits
      dest: findFile_fields)

lemma serveContent_map:
  "importFallbackMap (world_of (serveContent e cfg req n f s)) = importFallbackMap s"
  by (simp add: serveContent_def Let_def split: sum.splits)

lemma world_of_Return: "r = Return a s' \<Longrightarrow> world_of r = s'"
  by simp

lemma world_of_Panic: "r = Panic x s' \<Longrightarrow> world_of r = s'"
  by simp

lemma findAndServe_map:
  "importFallbackMap (world_of (findAndServe e cfg p req s)) = importFallbackMap s"
proof (cases "findFile e cfg p s")
  case (Pair r s1)
  note m1 = findFile_fields [OF Pair]
  show ?thesis
  proof (cases r)
    case (Found f)
    show ?thesis
    proof (cases "resolveMimeType e cfg p s1")
      case (Return ctype s2)
      from resolveMimeType_map [of e cfg p s1] Return
      have m2: "importFallbackMap s2 = importFallbackMap s1" by simp
      from serveContent_map [of e cfg req p f "w_Header_Set ''Content-Type'' ctype s2"]
      show ?thesis
        using Pair Found Return m1 m2
        by (auto simp add: findAndServe_def split: go.splits)
    next
      case (Panic x s2)
      from resolveMimeType_map [of e cfg p s1] Panic
      show ?thesis using Pair Found m1 by (simp add: findAndServe_def)
    qed
  qed (use Pair m1 in \<open>simp_all add: findAndServe_def\<close>)
qed

lemma lookup_encoded_asset_map:
  "importFallbackMap (world_of (lookup_encoded_asset e cfg p req enc s)) = importFallbackMap s"
proof -
  define q where "q = p @ ''.'' @ (if enc = ''gzip'' then ''gz'' else enc)"
  show ?thesis
  proof (cases "findFile e cfg q s")
    case (Pair r s1)
    note m1 = findFile_fields [OF Pair]
    show ?thesis
    proof (cases r)
      case (Found f)
      show ?thesis
      proof (cases "resolveMimeType e cfg p (w_Header_Set ''Content-Encoding'' enc s1)")
        case (Return ctype s2)
        from resolveMimeType_map [of e cfg p "w_Header_Set ''Content-Encoding'' enc s1"] Return
        have m2: "importFallbackMap s2 = importFallbackMap s1" by simp
        from serveContent_map [of e cfg req p f "w_Header_Set ''Content-Type'' ctype s2"]
        show ?thesis
          using Pair Found Return m1 m2
          by (auto simp add: lookup_encoded_asset_def q_def Let_def split: go.splits)
      next
        case (Panic x s2)
        from resolveMimeType_map [of e cfg p "w_Header_Set ''Content-Encoding'' enc s1"] Panic
        show ?thesis using Pair Found m1 by (simp add: lookup_encoded_asset_def q_def Let_def)
      qed
    qed (use Pair m1 in \<open>simp_all add: lookup_encoded_asset_def q_def Let_def\<close>)
  qed
qed

lemma findAndServeEncoded_loop_map:
  "importFallbackMap (world_of (findAndServeEncoded_loop e cfg p req encs s)) = importFallbackMap s"
proof (induction encs arbitrary: s)
  case Nil
  then show ?case by (simp add: findAndServe_map)
next
  case (Cons enc encs)
  show ?case
  proof (cases "accepts_encoding req enc")
    case True
    show ?thesis
    proof (cases "lookup_encoded_asset e cfg p req enc s")
      case (Return r s1)
      from lookup_encoded_asset_map [of e cfg p req enc s] Return
      have "importFallbackMap s1 = importFallbackMap s" by simp
      then show ?thesis using True Return Cons.IH [of s1]
        by (cases r) simp
    next
      case (Panic x s1)
      from lookup_encoded_asset_map [of e cfg p req enc s] Panic
      show ?thesis using True by simp
    qed
  next
    case False
    then show ?thesis using Cons.IH [of s] by simp
  qed
qed

lemma findAndServeEncoded_map:
  "importFallbackMap (world_of (findAndServeEncoded e cfg p req s)) = importFallbackMap s"
  by (simp add: findAndServeEncoded_def findAndServeEncoded_loop_map)

lemma findAndServeEncoded_map_Return:
  "findAndServeEncoded e cfg p req s = Return r s' \<Longrightarrow> importFallbackMap s' = importFallbackMap s"
  using findAndServeEncoded_map [of e cfg p req s] by simp

lemma findAndServeEncoded_map_Panic:
  "findAndServeEncoded e cfg p req s = Panic x s' \<Longrightarrow> importFallbackMap s' = importFallbackMap s"
  using findAndServeEncoded_map [of e cfg p req s] by simp

subsection \<open>Runs on the module example\<close>

lemma findFile_single_root:
  assumes "RootDirs cfg = [R]" and "os_Open e (path_Join R p) = Inr f"
    and "Stat f 0 = Inr i" and "\<not> IsDir i"
  shows "findFile e cfg p s = (Found f, s\<lparr>opens := opens s @ [path_Join R p]\<rparr>)"
  using assms by (simp add: findFile_def)

lemma findAndServeEncoded_plain_found:
  assumes "\<not> accepts_encoding req ''br''" and "\<not> accepts_encoding req ''gzip''"
    and "findFile e cfg p s = (Found f, s1)" and "Stat f 1 = Inr i"
  shows "\<exists>s'. findAndServeEncoded e cfg p req s = Return (True, None) s'
           \<and> serves s' = serves s @ [(p, f)]
           \<and> importFallbackMap s' = importFallbackMap s
           \<and> (plain_request req \<longrightarrow> Status s' = Some 200 \<and> Body s' = Data f)"
  using findAndServe_found [OF assms(3,4), of req] assms(1,2)
  by (simp add: findAndServeEncoded_plain)

lemma join_modules:
  "path_Join ''/spa/public'' ''/mod'' = ''/spa/public/mod''"
  "path_Join ''/spa/public'' ''/mod.mjs'' = ''/spa/public/mod.mjs''"
  "path_Join ''/spa/public'' ''/mod.js'' = ''/spa/public/mod.js''"
  "path_Join ''/spa/public'' ''/both.mjs'' = ''/spa/public/both.mjs''"
  "path_Join ''/spa/public'' ''/old.mjs'' = ''/spa/public/old.mjs''"
  "path_Join ''/spa/public'' ''/old.js'' = ''/spa/public/old.js''"
  "path_Join ''/spa/public'' ''/old.cjs'' = ''/spa/public/old.cjs''"
  by code_simp+

lemma module_env_simps [simp]:
  "os_Open module_env = module_fs"
  "regexp_Compile module_env = app_regexp"
  "mime_types module_env = builtin_types"
  by (simp_all add: module_env_def plain_env_def)

lemma regular_simps [simp]:
  "Stat (regular d) n = Inr \<lparr>IsDir = False\<rparr>"
  "Data (regular d) = d"
  by (simp_all add: regular_def)

lemma module_miss:
  assumes "p \<in> {''/mod.mjs'', ''/old.mjs'', ''/old.js''}"
  shows "findAndServeEncoded module_env (plain_cfg [''/spa/public'']) p (get q) s
     = Return (False, None) (s\<lparr>opens := opens s @ [path_Join ''/spa/public'' p]\<rparr>)"
  using assms
  by (auto simp add: findAndServeEncoded_plain findAndServe_missing join_modules module_fs_def)

lemma module_hit:
  assumes "(p, d) \<in> {(''/mod.js'', ''export default 1''), (''/both.mjs'', ''mjs of both''),
                     (''/old.cjs'', ''module.exports = 1'')}"
  shows "\<exists>s'. findAndServeEncoded module_env (plain_cfg [''/spa/public'']) p (get q) s
                 = Return (True, None) s'
           \<and> Status s' = Some 200 \<and> Body s' = d"
proof -
  have "findFile module_env (plain_cfg [''/spa/public'']) p s
          = (Found (regular d), s\<lparr>opens := opens s @ [path_Join ''/spa/public'' p]\<rparr>)"
    using assms
    by (intro findFile_single_root [where i = "\<lparr>IsDir = False\<rparr>"])
       (auto simp add: join_modules module_fs_def)
  from findAndServeEncoded_plain_found [OF _ _ this, of "get q" "\<lparr>IsDir = False\<rparr>"]
  show ?thesis by auto
qed

lemma applies_examples:
  "import_fallback_applies (plain_cfg roots) ''/mod''"
  "import_fallback_applies (plain_cfg roots) ''/both''"
  "import_fallback_applies (plain_cfg roots) ''/old''"
  "import_fallback_applies (plain_cfg roots) ''/missing''"
  "import_fallback_applies ((plain_cfg roots)\<lparr>ImportFallbackRegexp := ''^/app/''\<rparr>) ''/missing''"
  "\<not> import_fallback_applies (plain_cfg roots) ''/app.js''"
  "\<not> import_fallback_applies ((plain_cfg roots)\<lparr>ImportFallbackRegexp := ''disabled''\<rparr>) ''/mod''"
  by (simp_all add: import_fallback_applies_def strings_HasPrefix_def strings_HasSuffix_def
      suffix_to_prefix)

subsection \<open>Entries of the import-fallback map stay\<close>

lemma Store_fields [simp]:
  "importFallbackMap (Store k v s) = (importFallbackMap s)(k \<mapsto> v)"
  "Status (Store k v s) = Status s"
  "Body (Store k v s) = Body s"
  "Header (Store k v s) = Header s"
  "opens (Store k v s) = opens s"
  "closes (Store k v s) = closes s"
  "serves (Store k v s) = serves s"
  by (simp_all add: Store_def)

lemma importFallback_next_map:
  "importFallbackMap (world_of (importFallback_next e cfg p req suf prev))
     = importFallbackMap (world_of prev)"
proof (cases prev)
  case (Return r s)
  obtain realPath found err where r: "r = (realPath, found, err)"
    by (cases r) auto
  show ?thesis
  proof (cases "\<not> found \<and> err = None")
    case True
    then show ?thesis
      using Return r findAndServeEncoded_map [of e cfg "p @ suf" req s]
      by (auto simp add: importFallback_next_def split: go.splits)
  next
    case False
    then show ?thesis using Return r by (auto simp add: importFallback_next_def)
  qed
next
  case (Panic x s)
  then show ?thesis by (simp add: importFallback_next_def)
qed

lemma importFallback_search_map:
  "importFallbackMap (world_of (importFallback_search e cfg p req s)) = importFallbackMap s
   \<or> (\<exists>r. importFallbackMap (world_of (importFallback_search e cfg p req s))
            = (importFallbackMap s)(p \<mapsto> r))"
proof -
  define t where "t = importFallback_next e cfg p req ''.cjs''
             (importFallback_next e cfg p req ''.js''
                (importFallback_next e cfg p req ''.mjs'' (Return ([], False, None) s)))"
  have "importFallbackMap (world_of t) = importFallbackMap s"
    by (simp add: t_def importFallback_next_map)
  then show ?thesis
    unfolding importFallback_search_def t_def [symmetric]
    by (cases t) (auto split: prod.splits)
qed

lemma importFallback_keeps:
  assumes "importFallbackMap s k = Some v"
  shows "importFallbackMap (world_of (importFallback e cfg p req s)) k = Some v"
proof (cases "importFallbackMap s p")
  case None
  then have "p \<noteq> k" using assms by auto
  then show ?thesis
    using None assms importFallback_search_map [of e cfg p req s]
    by (auto simp add: importFallback_def split: option.splits)
next
  case (Some r)
  then show ?thesis
    using assms findAndServeEncoded_map [of e cfg r req s]
    by (simp add: importFallback_def)
qed

lemma fallback_map:
  "importFallbackMap (world_of (fallback e cfg req s)) = importFallbackMap s"
  by (simp add: fallback_def findAndServeEncoded_map)

lemma handler_stages_keeps:
  assumes "importFallbackMap s k = Some v"
  shows "importFallbackMap (world_of (handler_stages e cfg p req s)) k = Some v"
proof (cases "findAndServeEncoded e cfg p req s")
  case (Return r s1)
  then have m1: "importFallbackMap s1 k = Some v"
    using findAndServeEncoded_map [of e cfg p req s] assms by simp
  obtain found err where r: "r = (found, err)" by (cases r) auto
  show ?thesis
  proof (cases "\<not> found \<and> err = None")
    case True
    show ?thesis
    proof (cases "importFallback e cfg p req s1")
      case (Return r2 s2)
      then have m2: "importFallbackMap s2 k = Some v"
        using importFallback_keeps [OF m1, of e cfg p req] by simp
      obtain found2 err2 where r2: "r2 = (found2, err2)" by (cases r2) auto
      show ?thesis
        using \<open>findAndServeEncoded e cfg p req s = Return r s1\<close> r True Return r2 m2
          fallback_map [of e cfg req s2]
        by (simp add: handler_stages_def)
    next
      case (Panic x s2)
      then have "importFallbackMap s2 k = Some v"
        using importFallback_keeps [OF m1, of e cfg p req] by simp
      then show ?thesis
        using \<open>findAndServeEncoded e cfg p req s = Return r s1\<close> r True Panic
        by (simp add: handler_stages_def)
    qed
  next
    case False
    then show ?thesis
      using Return r m1 by (auto simp add: handler_stages_def)
  qed
next
  case (Panic x s1)
  then show ?thesis
    using findAndServeEncoded_map [of e cfg p req s] assms
    by (simp add: handler_stages_def)
qed

lemma handler_keeps:
  assumes "importFallbackMap s k = Some v"
  shows "importFallbackMap (world_of (handler e cfg req s)) k = Some v"
proof (cases "handler_resourcePath cfg req")
  case None
  then show ?thesis using assms by (simp add: handler_def)
next
  case (Some p)
  show ?thesis
    using Some handler_stages_keeps [OF assms, of e cfg p req]
    by (cases "handler_stages e cfg p req s")
       (auto simp add: handler_def handler_serve_def split: prod.splits)
qed

lemma ServeHTTP_keeps:
  assumes "importFallbackMap s k = Some v"
  shows "importFallbackMap (world_of (ServeHTTP e cfg req s)) k = Some v"
  unfolding ServeHTTP_def
  by (rule handler_keeps) (simp add: fresh_writer_def assms)

lemma serve_all_keeps:
  "importFallbackMap s k = Some v \<Longrightarrow> importFallbackMap (serve_all cfg reqs s) k = Some v"
proof (induction reqs arbitrary: s)
  case Nil
  then show ?case by simp
next
  case (Cons a reqs)
  obtain e req where a: "a = (e, req)" by (cases a) auto
  show ?case
    using Cons.IH [OF ServeHTTP_keeps [OF Cons.prems, of e cfg req]] a by simp
qed

lemma first_mod_request:
  "importFallbackMap (world_of (ServeHTTP module_env (plain_cfg [''/spa/public'']) (get ''/mod'') start))
     ''/mod'' = Some ''/mod.js''"
proof -
  let ?C = "plain_cfg [''/spa/public'']"
  let ?s = "fresh_writer start"
  let ?s1 = "?s\<lparr>opens := opens ?s @ [''/spa/public/mod'']\<rparr>"
  let ?s2 = "?s1\<lparr>opens := opens ?s1 @ [path_Join ''/spa/public'' ''/mod.mjs'']\<rparr>"
  have rp: "handler_resourcePath ?C (get ''/mod'') = Some ''/mod''"
    by (simp add: handler_resourcePath_def)
  have primary: "findAndServeEncoded module_env ?C ''/mod'' (get ''/mod'') ?s
                   = Return (False, None) ?s1"
    by (simp add: findAndServeEncoded_plain findAndServe_missing join_modules module_fs_def)
  have mjs: "findAndServeEncoded module_env ?C (''/mod'' @ ''.mjs'') (get ''/mod'') ?s1
               = Return (False, None) ?s2"
    using module_miss [of "''/mod.mjs''" "''/mod''" ?s1] by simp
  obtain s3 where js: "findAndServeEncoded module_env ?C (''/mod'' @ ''.js'') (get ''/mod'') ?s2
               = Return (True, None) s3"
    using module_hit [of "''/mod.js''" "''export default 1''" "''/mod''" ?s2] by auto
  have "importFallback module_env ?C ''/mod'' (get ''/mod'') ?s1
          = Return (True, None) (Store ''/mod'' ''/mod.js'' s3)"
    using mjs js applies_examples(1) [of "[''/spa/public'']"]
    by (simp add: importFallback_def import_fallback_applies_def importFallback_regexp_def
        importFallback_search_def importFallback_next_def fresh_writer_def start_def)
  then have "handler_stages module_env ?C ''/mod'' (get ''/mod'') ?s
          = Return (True, None) (Store ''/mod'' ''/mod.js'' s3)"
    using primary by (simp add: handler_stages_def)
  then show ?thesis
    using rp by (simp add: ServeHTTP_def handler_def handler_serve_def)
qed

subsection \<open>Lookups that fail\<close>

lemma lookup_result_eq: "fst (findFile e cfg p s) = lookup_result e cfg p"
  unfolding lookup_result_def by (rule findFile_result)





lemma serveContent_stat_failure:
  "Stat file 1 = Inl err \<Longrightarrow>
     serveContent e cfg req name file s = Panic err (applyHeaders e cfg name s)"
  by (simp add: serveContent_def)

lemma resolveMimeType_lookup_failure:
  "mime_TypeByExtension e (filepath_Ext p) = [] \<Longrightarrow> lookup_result e cfg p = Failed err \<Longrightarrow>
     \<exists>s1. resolveMimeType e cfg p s = Panic err s1"
  using lookup_result_eq [of e cfg p s]
  by (cases "findFile e cfg p s") (auto simp add: resolveMimeType_def)

lemma findAndServe_single_failed:
  assumes "RootDirs cfg = [R]" and "os_Open e (path_Join R p) = Inl err"
    and "\<not> os_IsNotExist err"
  shows "findAndServe e cfg p req s
           = Return (False, Some err) (s\<lparr>opens := opens s @ [path_Join R p]\<rparr>)"
  using assms by (simp add: findAndServe_def findFile_def)

subsection \<open>The header policy on canonical names\<close>

lemma single_valued_Header_Set: "single_valued h \<Longrightarrow> single_valued (Header_Set h k v)"
  by (simp add: single_valued_def Header_Set_def)

lemma single_valued_set_rule_headers:
  "single_valued h \<Longrightarrow> single_valued (set_rule_headers headers h)"
  unfolding set_rule_headers_def
  by (induction headers arbitrary: h) (auto simp add: single_valued_Header_Set)

lemma single_valued_fold_rules:
  "single_valued h \<Longrightarrow>
     single_valued (fold (\<lambda>(rx, headers) h'.
             if fst (regexp_MatchString e rx p) then set_rule_headers headers h' else h')
          rules h)"
  by (induction rules arbitrary: h) (auto simp add: single_valued_set_rule_headers)

lemma single_valued_fold_global:
  "single_valued h \<Longrightarrow>
     single_valued (fold (\<lambda>(key, v) h'. if h' key = None then Header_Set h' key v else h')
        globals h)"
  by (induction globals arbitrary: h) (auto simp add: single_valued_Header_Set)

lemma applyHeaders_single_valued:
  "single_valued (Header s) \<Longrightarrow> single_valued (Header (applyHeaders e cfg p s))"
  by (simp add: applyHeaders_def default_cache_control_def merge_global_headers_def
      path_specific_headers_def single_valued_fold_rules single_valued_fold_global
      single_valued_Header_Set)

lemma fold_global_canonical_keeps:
  assumes "list_all (\<lambda>(key, v). CanonicalMIMEHeaderKey key = key) globals"
    and "h k = Some vs"
  shows "fold (\<lambda>(key, v) h'. if h' key = None then Header_Set h' key v else h') globals h k
           = Some vs"
  using assms
proof (induction globals arbitrary: h)
  case Nil
  then show ?case by simp
next
  case (Cons g globals)
  obtain key v where g: "g = (key, v)" by (cases g) auto
  have step: "(if h key = None then Header_Set h key v else h) k = Some vs"
    using Cons.prems g by (auto simp add: Header_Set_def)
  have rest: "list_all (\<lambda>(key, v). CanonicalMIMEHeaderKey key = key) globals"
    using Cons.prems(1) by simp
  show ?case
    using Cons.IH [of "if h key = None then Header_Set h key v else h"] rest step g by simp
qed

lemma rule_value_survives_canonical_globals:
  assumes "list_all (\<lambda>(key, v). CanonicalMIMEHeaderKey key = key) (Headers cfg)"
    and "path_specific_headers e cfg p (Header s) k = Some vs"
  shows "Header (applyHeaders e cfg p s) k = Some vs"
proof -
  have "merge_global_headers cfg (path_specific_headers e cfg p (Header s)) k = Some vs"
    unfolding merge_global_headers_def
    using assms by (rule fold_global_canonical_keeps)
  then show ?thesis
    by (auto simp add: applyHeaders_def default_cache_control_def Header_Set_def)
qed

subsection \<open>Root precedence\<close>

text \<open>
  C1.  With \<open>RootDirs = [A, B]\<close>, a resource path that is a regular file under \<open>A\<close>
  is answered by the file under \<open>A\<close>, whatever \<open>B\<close> holds at that path, a regular
  file of the same name included: the lookup opens the path joined with \<open>A\<close> and
  nothing else and returns the handle of the file under \<open>A\<close>.  When the second
  \<open>Stat\<close> on that handle succeeds, \<open>findAndServe\<close> hands this handle and no other
  to \<open>http.ServeContent\<close>, and a plain request is answered 200 with the bytes of the file
  under \<open>A\<close>.
\<close>

theorem findFile_first_root_wins:
  assumes "RootDirs cfg = [A, B]"
    and "os_Open e (path_Join A p) = Inr fA"
    and "Stat fA 0 = Inr iA" and "\<not> IsDir iA"
  shows "findFile e cfg p s = (Found fA, s\<lparr>opens := opens s @ [path_Join A p]\<rparr>)
       \<and> (\<forall>i. Stat fA 1 = Inr i \<longrightarrow>
            (\<exists>s'. findAndServe e cfg p req s = Return (True, None) s'
                \<and> serves s' = serves s @ [(p, fA)]
                \<and> (plain_request req \<longrightarrow> Status s' = Some 200 \<and> Body s' = Data fA)))"
proof -
  have found: "findFile e cfg p s = (Found fA, s\<lparr>opens := opens s @ [path_Join A p]\<rparr>)"
    using assms by (simp add: findFile_def)
  have "\<exists>s'. findAndServe e cfg p req s = Return (True, None) s'
                \<and> serves s' = serves s @ [(p, fA)]
                \<and> (plain_request req \<longrightarrow> Status s' = Some 200 \<and> Body s' = Data fA)"
    if "Stat fA 1 = Inr i" for i
    using findAndServe_found [OF found that, of req] by blast
  then show ?thesis
    using found by blast
qed

theorem findFile_first_root_wins_witness:
  "os_Open (plain_env two_roots_fs) (path_Join ''/b'' ''/app.js'') = Inr (regular ''from B'')
   \<and> findFile (plain_env two_roots_fs) (plain_cfg [''/a'', ''/b'']) ''/app.js'' start
       = (Found (regular ''from A''), start\<lparr>opens := [''/a/app.js'']\<rparr>)
   \<and> (\<exists>s'. findAndServe (plain_env two_roots_fs) (plain_cfg [''/a'', ''/b'']) ''/app.js''
               (get ''/app.js'') start = Return (True, None) s'
            \<and> serves s' = [(''/app.js'', regular ''from A'')]
            \<and> Status s' = Some 200 \<and> Body s' = ''from A'')"
proof -
  have r: "RootDirs (plain_cfg [''/a'', ''/b'']) = [''/a'', ''/b'']"
    by simp
  have ja: "path_Join ''/a'' ''/app.js'' = ''/a/app.js''" by code_simp
  have jb: "path_Join ''/b'' ''/app.js'' = ''/b/app.js''" by code_simp
  have a: "os_Open (plain_env two_roots_fs) (path_Join ''/a'' ''/app.js'')
             = Inr (regular ''from A'')"
    by (simp add: ja plain_env_def two_roots_fs_def)
  have b: "os_Open (plain_env two_roots_fs) (path_Join ''/b'' ''/app.js'')
             = Inr (regular ''from B'')"
    by (simp add: jb plain_env_def two_roots_fs_def)
  have st: "Stat (regular ''from A'') 0 = Inr \<lparr>IsDir = False\<rparr>"
    by simp
  have nd: "\<not> IsDir \<lparr>IsDir = False\<rparr>" by simp
  show ?thesis
    using findFile_first_root_wins [OF r a st nd, of start "get ''/app.js''"] b
    by (simp add: ja start_def)
qed

subsection \<open>Directories\<close>

text \<open>
  C10.  A directory at the joined path under an earlier root does not end the search:
  with \<open>RootDirs = [A, B]\<close>, a directory under \<open>A\<close> and a regular file under \<open>B\<close>
  at the same resource path, the lookup closes the handle of the directory, goes on to
  \<open>B\<close> and finds the file there.  When the second \<open>Stat\<close> on the handle of that
  file succeeds, \<open>findAndServe\<close> hands this handle and no other to
  \<open>http.ServeContent\<close>, and a plain request is answered 200 with the bytes of the file
  under \<open>B\<close>.
\<close>

theorem directory_does_not_end_search:
  assumes "RootDirs cfg = [A, B]"
    and "os_Open e (path_Join A p) = Inr dA"
    and "Stat dA 0 = Inr iA" and "IsDir iA"
    and "os_Open e (path_Join B p) = Inr fB"
    and "Stat fB 0 = Inr iB" and "\<not> IsDir iB"
  shows "findFile e cfg p s =
           (Found fB, s\<lparr>opens := opens s @ [path_Join A p, path_Join B p],
                        closes := closes s @ [dA]\<rparr>)
         \<and> (\<forall>i. Stat fB 1 = Inr i \<longrightarrow>
              (\<exists>s'. findAndServe e cfg p req s = Return (True, None) s'
                  \<and> serves s' = serves s @ [(p, fB)]
                  \<and> (plain_request req \<longrightarrow> Status s' = Some 200 \<and> Body s' = Data fB)))"
proof -
  have found: "findFile e cfg p s =
           (Found fB, s\<lparr>opens := opens s @ [path_Join A p, path_Join B p],
                        closes := closes s @ [dA]\<rparr>)"
    using assms by (rule findFile_directory_then_file)
  have "\<exists>s'. findAndServe e cfg p req s = Return (True, None) s'
                \<and> serves s' = serves s @ [(p, fB)]
                \<and> (plain_request req \<longrightarrow> Status s' = Some 200 \<and> Body s' = Data fB)"
    if "Stat fB 1 = Inr i" for i
    using findAndServe_found [OF found that, of req] by blast
  then show ?thesis
    using found by blast
qed

theorem directory_does_not_end_search_witness:
  "findFile (plain_env two_roots_fs) (plain_cfg [''/a'', ''/b'']) ''/docs'' start
     = (Found (regular ''docs of B''),
        start\<lparr>opens := [''/a/docs'', ''/b/docs''], closes := [directory]\<rparr>)
   \<and> (\<exists>s'. findAndServe (plain_env two_roots_fs) (plain_cfg [''/a'', ''/b'']) ''/docs''
               (get ''/docs'') start = Return (True, None) s'
            \<and> serves s' = [(''/docs'', regular ''docs of B'')]
            \<and> Status s' = Some 200 \<and> Body s' = ''docs of B'')"
proof -
  have r: "RootDirs (plain_cfg [''/a'', ''/b'']) = [''/a'', ''/b'']"
    by (simp add: plain_cfg_def)
  have ja: "path_Join ''/a'' ''/docs'' = ''/a/docs''" by code_simp
  have jb: "path_Join ''/b'' ''/docs'' = ''/b/docs''" by code_simp
  have a: "os_Open (plain_env two_roots_fs) (path_Join ''/a'' ''/docs'') = Inr directory"
    by (simp add: ja plain_env_def two_roots_fs_def)
  have b: "os_Open (plain_env two_roots_fs) (path_Join ''/b'' ''/docs'')
             = Inr (regular ''docs of B'')"
    by (simp add: jb plain_env_def two_roots_fs_def)
  have sd: "Stat directory 0 = Inr \<lparr>IsDir = True\<rparr>"
    by (simp add: directory_def)
  have sf: "Stat (regular ''docs of B'') 0 = Inr \<lparr>IsDir = False\<rparr>"
    by (simp add: regular_def)
  have d: "IsDir \<lparr>IsDir = True\<rparr>" and nd: "\<not> IsDir \<lparr>IsDir = False\<rparr>"
    by simp_all
  show ?thesis
    using directory_does_not_end_search [OF r a sd d b sf nd, of start "get ''/docs''"]
    by (simp add: ja jb start_def)
qed

subsection \<open>Base URL\<close>

text \<open>
  C3.  With a non-empty \<open>BaseURL\<close>: a request path that starts with it is looked up
  without that prefix; otherwise a path that equals \<open>BaseURL\<close> once a slash is
  appended is looked up as the empty path; otherwise, when \<open>AllowSkipBaseUrl\<close> is
  false, the handler answers 404 "Not Found" at once and opens no file; otherwise the
  path is looked up as it is.  In each case an empty path is replaced by
  \<open>index.html\<close> before the lookup.
\<close>

theorem base_url_normalisation:
  assumes "BaseURL cfg \<noteq> []"
  shows "(strings_HasPrefix (URL_Path req) (BaseURL cfg) \<longrightarrow>
            handler e cfg req s =
              handler_serve e cfg
                (if drop (length (BaseURL cfg)) (URL_Path req) = [] then ''index.html''
                 else drop (length (BaseURL cfg)) (URL_Path req)) req s)
       \<and> (\<not> strings_HasPrefix (URL_Path req) (BaseURL cfg)
            \<and> URL_Path req @ ''/'' = BaseURL cfg \<longrightarrow>
            handler e cfg req s = handler_serve e cfg ''index.html'' req s)
       \<and> (\<not> strings_HasPrefix (URL_Path req) (BaseURL cfg)
            \<and> URL_Path req @ ''/'' \<noteq> BaseURL cfg \<and> \<not> AllowSkipBaseUrl cfg \<longrightarrow>
            handler e cfg req s
              = Return () (s\<lparr>Status := Some 404, Body := ''Not Found'' @ [CHR 0x0A]\<rparr>)
            \<and> opens (world_of (handler e cfg req s)) = opens s)
       \<and> (\<not> strings_HasPrefix (URL_Path req) (BaseURL cfg)
            \<and> URL_Path req @ ''/'' \<noteq> BaseURL cfg \<and> AllowSkipBaseUrl cfg \<longrightarrow>
            handler e cfg req s =
              handler_serve e cfg
                (if URL_Path req = [] then ''index.html'' else URL_Path req) req s)"
  using assms
  by (simp add: handler_def handler_resourcePath_def http_Error_def)

theorem base_url_normalisation_witness:
  "handler (plain_env two_roots_fs) (app_cfg False) (get ''/app/x.js'') start
     = handler_serve (plain_env two_roots_fs) (app_cfg False) ''x.js'' (get ''/app/x.js'') start
   \<and> handler (plain_env two_roots_fs) (app_cfg False) (get ''/app/'') start
     = handler_serve (plain_env two_roots_fs) (app_cfg False) ''index.html'' (get ''/app/'') start
   \<and> handler (plain_env two_roots_fs) (app_cfg False) (get ''/app'') start
     = handler_serve (plain_env two_roots_fs) (app_cfg False) ''index.html'' (get ''/app'') start
   \<and> handler (plain_env two_roots_fs) (app_cfg False) (get ''/other'') start
     = Return () (start\<lparr>Status := Some 404, Body := ''Not Found'' @ [CHR 0x0A]\<rparr>)
   \<and> opens (world_of (handler (plain_env two_roots_fs) (app_cfg False) (get ''/other'') start)) = []
   \<and> handler (plain_env two_roots_fs) (app_cfg True) (get ''/other'') start
     = handler_serve (plain_env two_roots_fs) (app_cfg True) ''/other'' (get ''/other'') start"
proof -
  have f: "BaseURL (app_cfg allow) = ''/app/''" "AllowSkipBaseUrl (app_cfg allow) = allow" for allow
    by (simp_all add: app_cfg_def plain_cfg_def)
  have g: "URL_Path (get p) = p" for p
    by (simp add: get_def)
  show ?thesis
    using base_url_normalisation [where cfg = "app_cfg False" and req = "get ''/app/x.js''"
          and e = "plain_env two_roots_fs" and s = start]
      base_url_normalisation [where cfg = "app_cfg False" and req = "get ''/app/''"
          and e = "plain_env two_roots_fs" and s = start]
      base_url_normalisation [where cfg = "app_cfg False" and req = "get ''/app''"
          and e = "plain_env two_roots_fs" and s = start]
      base_url_normalisation [where cfg = "app_cfg False" and req = "get ''/other''"
          and e = "plain_env two_roots_fs" and s = start]
      base_url_normalisation [where cfg = "app_cfg True" and req = "get ''/other''"
          and e = "plain_env two_roots_fs" and s = start]
    by (simp add: f g strings_HasPrefix_def start_def)
qed

subsection \<open>Fallback to the entry document\<close>

text \<open>
  On a request with a simple \<open>Accept\<close> header, what the code finds in the header lines
  is what the specification finds in the media ranges.
\<close>

lemma simple_accept_get [simp]: "simple_accept (get p)"
  by (simp add: simple_accept_def)

lemma simple_accept_presence:
  "simple_accept req \<Longrightarrow>
     (Header_Get (ReqHeader req) ''Accept'' \<noteq> []) = (Header_Values (ReqHeader req) ''Accept'' \<noteq> [])"
  by (auto simp add: simple_accept_def Header_Get_def Header_Values_def
      split: option.splits list.splits)

lemma comma_pieces_not_Nil [simp]: "comma_pieces line \<noteq> []"
  by (induction line) (auto split: list.splits)

lemma first_media_range:
  assumes "strings_HasPrefix line ''text/html''"
  shows "list_ex (\<lambda>mr. strings_HasPrefix mr ''text/html'') (media_ranges line)"
proof -
  obtain rest where line: "line = ''text/html'' @ rest"
    using assms by (auto simp add: strings_HasPrefix_def prefix_def)
  obtain piece pieces where p: "comma_pieces rest = piece # pieces"
    by (cases "comma_pieces rest") auto
  have "comma_pieces line = (''text/html'' @ piece) # pieces"
    by (simp add: line p)
  then show ?thesis
    by (simp add: media_ranges_def strings_HasPrefix_def)
qed

lemma simple_accept_values:
  assumes "simple_accept req"
  shows "list_ex (\<lambda>acp. strings_HasPrefix acp ''text/html'') (Header_Values (ReqHeader req) ''Accept'')
         = list_ex (\<lambda>mr. strings_HasPrefix mr ''text/html'') (accept_values req)"
proof -
  let ?lines = "Header_Values (ReqHeader req) ''Accept''"
  have "\<exists>mr\<in>set (accept_values req). strings_HasPrefix mr ''text/html''"
    if "line \<in> set ?lines" and "strings_HasPrefix line ''text/html''" for line
    using that first_media_range [OF that(2)]
    by (auto simp add: accept_values_def list_ex_iff)
  moreover have "\<exists>line\<in>set ?lines. strings_HasPrefix line ''text/html''"
    if mem: "mr \<in> set (accept_values req)" and pre: "strings_HasPrefix mr ''text/html''" for mr
  proof -
    obtain line where l: "line \<in> set ?lines" "mr \<in> set (media_ranges line)"
      using mem by (auto simp add: accept_values_def)
    then have "strings_HasPrefix line ''text/html''"
      using assms pre unfolding simple_accept_def list_all_iff list_ex_iff by blast
    then show ?thesis using l(1) by blast
  qed
  ultimately show ?thesis
    unfolding list_ex_iff by blast
qed

text \<open>
  C5, on requests whose \<open>Accept\<close> header is simple.  After a miss of both the primary
  resolution and the import fallback the handler turns to \<open>fallback\<close>.  It answers
  "not found" and leaves the world as it is, so that no file is opened, when
  \<open>FallbackDisabled\<close> is set, or when the request carries an \<open>Accept\<close> header and
  none of its values starts with \<open>text/html\<close>, or when a pattern of \<open>NotFoundRegexs\<close>
  matches the URL path of the request (the path as it arrived, before the base URL is
  stripped).  In every other case, a request without \<open>Accept\<close> header among them, it
  is the negotiation of \<open>/index.html\<close>.
\<close>

theorem spa_fallback_gating:
  assumes "findAndServeEncoded e cfg resourcePath req s = Return (False, None) s1"
    and "importFallback e cfg resourcePath req s1 = Return (False, None) s2"
    and "simple_accept req"
  shows "handler_stages e cfg resourcePath req s = fallback e cfg req s2
       \<and> (if FallbackDisabled cfg
              \<or> (Header_Values (ReqHeader req) ''Accept'' \<noteq> []
                  \<and> list_all (\<lambda>mr. \<not> strings_HasPrefix mr ''text/html'')
                              (accept_values req))
              \<or> list_ex (\<lambda>regex. fst (regexp_MatchString e regex (URL_Path req)))
                         (NotFoundRegexs cfg)
           then fallback e cfg req s2 = Return (False, None) s2
           else fallback e cfg req s2 = findAndServeEncoded e cfg ''/index.html'' req s2)"
proof -
  have stages: "handler_stages e cfg resourcePath req s = fallback e cfg req s2"
    using assms(1,2) by (simp add: handler_stages_def)
  have ranges: "list_all (\<lambda>mr. \<not> strings_HasPrefix mr ''text/html'') (accept_values req)
     = (\<not> list_ex (\<lambda>acp. strings_HasPrefix acp ''text/html'')
               (Header_Values (ReqHeader req) ''Accept''))"
    unfolding simple_accept_values [OF assms(3)]
    by (simp add: list_all_iff list_ex_iff)
  have gate: "(if FallbackDisabled cfg
              \<or> (Header_Values (ReqHeader req) ''Accept'' \<noteq> []
                  \<and> list_all (\<lambda>mr. \<not> strings_HasPrefix mr ''text/html'')
                              (accept_values req))
              \<or> list_ex (\<lambda>regex. fst (regexp_MatchString e regex (URL_Path req)))
                         (NotFoundRegexs cfg)
           then fallback e cfg req s2 = Return (False, None) s2
           else fallback e cfg req s2 = findAndServeEncoded e cfg ''/index.html'' req s2)"
    unfolding ranges
    using simple_accept_presence [OF assms(3)]
    by (auto simp add: fallback_def)
  from stages gate show ?thesis by blast
qed

theorem spa_fallback_gating_witness:
  "handler_stages entry_env ((plain_cfg [''/spa/public''])\<lparr>FallbackDisabled := True\<rparr>)
       ''/missing'' (get_accepting ''/missing'' ''text/html'') start
     = Return (False, None) after_missing
   \<and> handler_stages entry_env (plain_cfg [''/spa/public''])
       ''/missing'' (get_accepting ''/missing'' ''application/json, text/plain'') start
     = Return (False, None) after_missing
   \<and> handler_stages entry_env
       ((plain_cfg [''/spa/public''])\<lparr>BaseURL := ''/app'', NotFoundRegexs := [''^/app/'']\<rparr>)
       ''/missing'' (get ''/app/missing'') start
     = Return (False, None) after_missing
   \<and> handler_stages entry_env (plain_cfg [''/spa/public''])
       ''/missing'' (get_accepting ''/missing'' ''text/html,application/xhtml+xml,*/*;q=0.8'') start
     = findAndServeEncoded entry_env (plain_cfg [''/spa/public'']) ''/index.html''
         (get_accepting ''/missing'' ''text/html,application/xhtml+xml,*/*;q=0.8'') after_missing
   \<and> handler_stages entry_env (plain_cfg [''/spa/public'']) ''/missing'' (get ''/missing'') start
     = findAndServeEncoded entry_env (plain_cfg [''/spa/public'']) ''/index.html''
         (get ''/missing'') after_missing"
proof -
  have sa: "simple_accept (get_accepting ''/missing'' ''text/html'')"
    "simple_accept (get_accepting ''/missing'' ''application/json, text/plain'')"
    "simple_accept (get_accepting ''/missing'' ''text/html,application/xhtml+xml,*/*;q=0.8'')"
    by code_simp+
  have av: "list_all (\<lambda>mr. \<not> strings_HasPrefix mr ''text/html'')
              (accept_values (get_accepting ''/missing'' ''application/json, text/plain''))"
    "\<not> list_all (\<lambda>mr. \<not> strings_HasPrefix mr ''text/html'')
              (accept_values (get_accepting ''/missing'' ''text/html,application/xhtml+xml,*/*;q=0.8''))"
    "accept_values (get p) = []" for p
    by (code_simp, code_simp, simp add: accept_values_def)
  have w1: "handler_stages entry_env ((plain_cfg [''/spa/public''])\<lparr>FallbackDisabled := True\<rparr>)
       ''/missing'' (get_accepting ''/missing'' ''text/html'') start
     = Return (False, None) after_missing"
    using spa_fallback_gating [OF missing_stages sa(1),
        of "(plain_cfg [''/spa/public''])\<lparr>FallbackDisabled := True\<rparr>"]
    by simp
  have w2: "handler_stages entry_env (plain_cfg [''/spa/public''])
       ''/missing'' (get_accepting ''/missing'' ''application/json, text/plain'') start
     = Return (False, None) after_missing"
    using spa_fallback_gating [OF missing_stages sa(2), of "plain_cfg [''/spa/public'']"] av(1)
    by simp
  have w3: "handler_stages entry_env
       ((plain_cfg [''/spa/public''])\<lparr>BaseURL := ''/app'', NotFoundRegexs := [''^/app/'']\<rparr>)
       ''/missing'' (get ''/app/missing'') start
     = Return (False, None) after_missing"
    using spa_fallback_gating [OF missing_stages simple_accept_get,
        of "(plain_cfg [''/spa/public''])
              \<lparr>BaseURL := ''/app'', NotFoundRegexs := [''^/app/'']\<rparr>"
           "''/app/missing''"]
    by (simp add: regexp_MatchString_def app_regexp_def)
  have w4: "handler_stages entry_env (plain_cfg [''/spa/public''])
       ''/missing'' (get_accepting ''/missing'' ''text/html,application/xhtml+xml,*/*;q=0.8'') start
     = findAndServeEncoded entry_env (plain_cfg [''/spa/public'']) ''/index.html''
         (get_accepting ''/missing'' ''text/html,application/xhtml+xml,*/*;q=0.8'') after_missing"
    using spa_fallback_gating [OF missing_stages sa(3), of "plain_cfg [''/spa/public'']"] av(2)
    by (simp add: regexp_MatchString_def)
  have w5: "handler_stages entry_env (plain_cfg [''/spa/public'']) ''/missing'' (get ''/missing'') start
     = findAndServeEncoded entry_env (plain_cfg [''/spa/public'']) ''/index.html''
         (get ''/missing'') after_missing"
    using spa_fallback_gating [OF missing_stages simple_accept_get,
        of "plain_cfg [''/spa/public'']" "''/missing''"]
    by (simp add: regexp_MatchString_def)
  from w1 w2 w3 w4 w5 show ?thesis by blast
qed

text \<open>
  Three requests on which the code does not do what the claim says.

  The claim names the resource path where the code matches the URL path of the request:
  with \<open>BaseURL = /app/\<close> and the pattern \<open>^/app/\<close>, the request \<open>/app/missing\<close>
  has the resource path \<open>missing\<close>, which the pattern does not match; the fallback is
  enabled and the request carries no \<open>Accept\<close> header; still \<open>fallback\<close> answers
  "not found", although the negotiation of \<open>/index.html\<close> would have served the entry
  document.

  A request whose \<open>Accept\<close> header is there with an empty value carries the header, and
  none of its values starts with \<open>text/html\<close>; the code negotiates \<open>/index.html\<close>
  and answers 200, because it takes the header for present when \<open>Get\<close> is not empty.

  A request with the one header line \<open>application/xhtml+xml, text/html\<close> names
  \<open>text/html\<close> among its values; the code answers "not found" without a lookup,
  because it takes the whole line for one value.
\<close>

theorem spa_fallback_counterexample:
  "handler_resourcePath app_nofallback_cfg (get ''/app/missing'') = Some ''missing''
   \<and> \<not> FallbackDisabled app_nofallback_cfg
   \<and> Header_Values (ReqHeader (get ''/app/missing'')) ''Accept'' = []
   \<and> \<not> list_ex (\<lambda>regex. fst (regexp_MatchString entry_env regex ''missing''))
                (NotFoundRegexs app_nofallback_cfg)
   \<and> fallback entry_env app_nofallback_cfg (get ''/app/missing'') start
        = Return (False, None) start
   \<and> findAndServeEncoded entry_env app_nofallback_cfg ''/index.html'' (get ''/app/missing'') start
        \<noteq> Return (False, None) start
   \<and> Header_Values (ReqHeader (get_accepting ''/missing'' [])) ''Accept'' = [[]]
   \<and> accept_values (get_accepting ''/missing'' []) = [[]]
   \<and> fallback entry_env (plain_cfg [''/spa/public'']) (get_accepting ''/missing'' []) start
        = findAndServeEncoded entry_env (plain_cfg [''/spa/public'']) ''/index.html''
            (get_accepting ''/missing'' []) start
   \<and> opens (world_of (fallback entry_env (plain_cfg [''/spa/public''])
                          (get_accepting ''/missing'' []) start))
        = [''/spa/public/index.html'']
   \<and> Status (world_of (fallback entry_env (plain_cfg [''/spa/public''])
                          (get_accepting ''/missing'' []) start)) = Some 200
   \<and> accept_values (get_accepting ''/missing'' ''application/xhtml+xml, text/html'')
        = [''application/xhtml+xml'', ''text/html'']
   \<and> fallback entry_env (plain_cfg [''/spa/public''])
        (get_accepting ''/missing'' ''application/xhtml+xml, text/html'') start
        = Return (False, None) start"
proof -
  have c: "BaseURL app_nofallback_cfg = ''/app/''" "\<not> FallbackDisabled app_nofallback_cfg"
    "NotFoundRegexs app_nofallback_cfg = [''^/app/'']"
    "RootDirs app_nofallback_cfg = [''/spa/public'']"
    by (simp_all add: app_nofallback_cfg_def app_cfg_def plain_cfg_def)
  have 1: "handler_resourcePath app_nofallback_cfg (get ''/app/missing'') = Some ''missing''"
    by (simp add: handler_resourcePath_def c strings_HasPrefix_def)
  have 2: "\<not> list_ex (\<lambda>regex. fst (regexp_MatchString entry_env regex ''missing''))
                (NotFoundRegexs app_nofallback_cfg)"
    by (simp add: c regexp_MatchString_def app_regexp_def)
  have 3: "fallback entry_env app_nofallback_cfg (get ''/app/missing'') start
        = Return (False, None) start"
    by (simp add: fallback_def c regexp_MatchString_def app_regexp_def)
  have 4: "findAndServeEncoded entry_env app_nofallback_cfg ''/index.html'' (get ''/app/missing'') start
        \<noteq> Return (False, None) start"
    using index_served [OF c(4), of "get ''/app/missing''" start]
    by (auto simp add: findAndServeEncoded_plain)
  have 5: "fallback entry_env (plain_cfg [''/spa/public'']) (get_accepting ''/missing'' []) start
        = findAndServeEncoded entry_env (plain_cfg [''/spa/public'']) ''/index.html''
            (get_accepting ''/missing'' []) start"
    by (simp add: fallback_def)
  have 6: "opens (world_of (fallback entry_env (plain_cfg [''/spa/public''])
                          (get_accepting ''/missing'' []) start))
        = [''/spa/public/index.html'']"
    by code_simp
  have 7: "Status (world_of (fallback entry_env (plain_cfg [''/spa/public''])
                          (get_accepting ''/missing'' []) start)) = Some 200"
    by code_simp
  have 8: "fallback entry_env (plain_cfg [''/spa/public''])
        (get_accepting ''/missing'' ''application/xhtml+xml, text/html'') start
        = Return (False, None) start"
    by (simp add: fallback_def strings_HasPrefix_def)
  have 9: "Header_Values (ReqHeader (get ''/app/missing'')) ''Accept'' = []"
    "Header_Values (ReqHeader (get_accepting ''/missing'' [])) ''Accept'' = [[]]"
    by simp_all
  have 10: "accept_values (get_accepting ''/missing'' []) = [[]]"
    "accept_values (get_accepting ''/missing'' ''application/xhtml+xml, text/html'')
        = [''application/xhtml+xml'', ''text/html'']"
    by code_simp+
  from 1 2 3 4 5 6 7 8 9 10 c(2) show ?thesis by blast
qed

subsection \<open>Import fallback\<close>

text \<open>
  C8, for restriction patterns that compile.  The import fallback answers "not found" and
  leaves the world as it is when it does not apply (the feature is disabled or the
  resource path ends in \<open>.mjs\<close>, \<open>.js\<close> or \<open>.cjs\<close>).  Where it applies and the cache
  has no entry for the path: a non-empty pattern that does not compile gives the compile
  error, and one that compiles and rejects the path gives "not found", both with the
  world as it was and so without any file opened; otherwise the suffixes are negotiated
  in the order \<open>.mjs\<close>, \<open>.js\<close>, \<open>.cjs\<close>, each starting in the world the miss
  before it left behind.  The first suffix that is served ends the search, and the cache
  then maps the resource path to the path with that suffix; three misses give
  "not found" with the cache as it was.
\<close>

theorem import_fallback_flow:
  "(\<not> import_fallback_applies cfg p \<longrightarrow>
      importFallback e cfg p req s = Return (False, None) s)
   \<and> (import_fallback_applies cfg p \<and> importFallbackMap s p = None
        \<and> ImportFallbackRegexp cfg \<noteq> []
        \<and> regexp_Compile e (ImportFallbackRegexp cfg) = Inl x \<longrightarrow>
      importFallback e cfg p req s = Return (False, Some x) s)
   \<and> (import_fallback_applies cfg p \<and> importFallbackMap s p = None
        \<and> restriction_rejects e cfg p \<longrightarrow>
      importFallback e cfg p req s = Return (False, None) s)
   \<and> (import_fallback_applies cfg p \<and> importFallbackMap s p = None
        \<and> restriction_admits e cfg p \<longrightarrow>
        (findAndServeEncoded e cfg (p @ ''.mjs'') req s = Return (True, err) s1 \<longrightarrow>
           importFallback e cfg p req s = Return (True, err) (Store p (p @ ''.mjs'') s1)
           \<and> importFallbackMap (world_of (importFallback e cfg p req s)) p = Some (p @ ''.mjs''))
      \<and> (findAndServeEncoded e cfg (p @ ''.mjs'') req s = Return (False, None) s1
           \<and> findAndServeEncoded e cfg (p @ ''.js'') req s1 = Return (True, err) s2 \<longrightarrow>
           importFallback e cfg p req s = Return (True, err) (Store p (p @ ''.js'') s2)
           \<and> importFallbackMap (world_of (importFallback e cfg p req s)) p = Some (p @ ''.js''))
      \<and> (findAndServeEncoded e cfg (p @ ''.mjs'') req s = Return (False, None) s1
           \<and> findAndServeEncoded e cfg (p @ ''.js'') req s1 = Return (False, None) s2
           \<and> findAndServeEncoded e cfg (p @ ''.cjs'') req s2 = Return (True, err) s3 \<longrightarrow>
           importFallback e cfg p req s = Return (True, err) (Store p (p @ ''.cjs'') s3)
           \<and> importFallbackMap (world_of (importFallback e cfg p req s)) p = Some (p @ ''.cjs''))
      \<and> (findAndServeEncoded e cfg (p @ ''.mjs'') req s = Return (False, None) s1
           \<and> findAndServeEncoded e cfg (p @ ''.js'') req s1 = Return (False, None) s2
           \<and> findAndServeEncoded e cfg (p @ ''.cjs'') req s2 = Return (False, None) s3 \<longrightarrow>
           importFallback e cfg p req s = Return (False, None) s3
           \<and> importFallbackMap s3 = importFallbackMap s))"
proof -
  have skip: "\<not> import_fallback_applies cfg p \<Longrightarrow>
      importFallback e cfg p req s = Return (False, None) s"
    by (auto simp add: import_fallback_applies_def importFallback_def)
  have broken: "import_fallback_applies cfg p \<Longrightarrow> importFallbackMap s p = None \<Longrightarrow>
      ImportFallbackRegexp cfg \<noteq> [] \<Longrightarrow> regexp_Compile e (ImportFallbackRegexp cfg) = Inl x \<Longrightarrow>
      importFallback e cfg p req s = Return (False, Some x) s"
    by (auto simp add: import_fallback_applies_def importFallback_def importFallback_regexp_def)
  have reject: "import_fallback_applies cfg p \<Longrightarrow> importFallbackMap s p = None \<Longrightarrow>
      restriction_rejects e cfg p \<Longrightarrow> importFallback e cfg p req s = Return (False, None) s"
    by (auto simp add: import_fallback_applies_def importFallback_def restriction_rejects_def
        importFallback_regexp_def split: sum.splits)
  have search: "import_fallback_applies cfg p \<Longrightarrow> importFallbackMap s p = None \<Longrightarrow>
      restriction_admits e cfg p \<Longrightarrow>
      importFallback e cfg p req s = importFallback_search e cfg p req s"
    by (auto simp add: import_fallback_applies_def importFallback_def restriction_admits_def
        importFallback_regexp_def split: sum.splits)
  have m: "findAndServeEncoded e cfg (p @ ''.mjs'') req s = Return (False, None) s1
           \<and> findAndServeEncoded e cfg (p @ ''.js'') req s1 = Return (False, None) s2
           \<and> findAndServeEncoded e cfg (p @ ''.cjs'') req s2 = Return (False, None) s3
      \<Longrightarrow> importFallbackMap s3 = importFallbackMap s"
    by (auto dest!: findAndServeEncoded_map_Return)
  show ?thesis
    using skip broken reject search m
    by (auto simp add: importFallback_search_def importFallback_next_def)
qed

theorem import_fallback_flow_witness:
  "importFallback module_env ((plain_cfg [''/spa/public''])\<lparr>ImportFallbackRegexp := ''disabled''\<rparr>)
       ''/mod'' (get ''/mod'') start = Return (False, None) start
   \<and> importFallback module_env (plain_cfg [''/spa/public'']) ''/app.js'' (get ''/app.js'') start
       = Return (False, None) start
   \<and> importFallback paren_env paren_cfg ''/mod'' (get ''/mod'') start
       = Return (False, Some (ErrOther ''error parsing regexp: missing closing )'')) start
   \<and> importFallback module_env ((plain_cfg [''/spa/public''])\<lparr>ImportFallbackRegexp := ''^/app/''\<rparr>)
       ''/missing'' (get ''/missing'') start = Return (False, None) start
   \<and> (\<exists>s1. importFallback module_env (plain_cfg [''/spa/public'']) ''/both'' (get ''/both'') start
              = Return (True, None) (Store ''/both'' ''/both.mjs'' s1)
           \<and> Body s1 = ''mjs of both'')
   \<and> importFallbackMap (world_of (importFallback module_env (plain_cfg [''/spa/public''])
         ''/both'' (get ''/both'') start)) ''/both'' = Some ''/both.mjs''
   \<and> (\<exists>s2. importFallback module_env (plain_cfg [''/spa/public'']) ''/mod'' (get ''/mod'') start
              = Return (True, None) (Store ''/mod'' ''/mod.js'' s2)
           \<and> Body s2 = ''export default 1'')
   \<and> importFallbackMap (world_of (importFallback module_env (plain_cfg [''/spa/public''])
         ''/mod'' (get ''/mod'') start)) ''/mod'' = Some ''/mod.js''
   \<and> (\<exists>s3. importFallback module_env (plain_cfg [''/spa/public'']) ''/old'' (get ''/old'') start
              = Return (True, None) (Store ''/old'' ''/old.cjs'' s3)
           \<and> Body s3 = ''module.exports = 1'')
   \<and> importFallbackMap (world_of (importFallback module_env (plain_cfg [''/spa/public''])
         ''/old'' (get ''/old'') start)) ''/old'' = Some ''/old.cjs''
   \<and> importFallback entry_env (plain_cfg [''/spa/public'']) ''/missing'' (get ''/missing'') start
       = Return (False, None)
           (start\<lparr>opens := [''/spa/public/missing.mjs'', ''/spa/public/missing.js'',
                              ''/spa/public/missing.cjs'']\<rparr>)"
proof -
  let ?C = "plain_cfg [''/spa/public'']"
  note main = import_fallback_flow
  have m0: "importFallbackMap start q = None" for q
    by (simp add: start_def)
  have rej: "restriction_rejects module_env (?C\<lparr>ImportFallbackRegexp := ''^/app/''\<rparr>) ''/missing''"
    by (simp add: restriction_rejects_def app_regexp_def)
  have adm: "restriction_admits e ?C q" for e q
    by (simp add: restriction_admits_def)
  have par: "import_fallback_applies paren_cfg ''/mod''" "ImportFallbackRegexp paren_cfg \<noteq> []"
    "regexp_Compile paren_env (ImportFallbackRegexp paren_cfg)
       = Inl (ErrOther ''error parsing regexp: missing closing )'')"
    by (simp_all add: paren_cfg_def paren_env_def paren_regexp_def plain_env_def
        import_fallback_applies_def strings_HasPrefix_def strings_HasSuffix_def suffix_to_prefix)
  obtain s1 where s1: "findAndServeEncoded module_env ?C (''/both'' @ ''.mjs'') (get ''/both'') start
      = Return (True, None) s1" "Body s1 = ''mjs of both''"
    using module_hit [of "''/both.mjs''" "''mjs of both''" "''/both''" start] by auto
  obtain s2 where s2: "findAndServeEncoded module_env ?C (''/mod'' @ ''.js'') (get ''/mod'')
        (start\<lparr>opens := opens start @ [path_Join ''/spa/public'' ''/mod.mjs'']\<rparr>)
      = Return (True, None) s2" "Body s2 = ''export default 1''"
    using module_hit [of "''/mod.js''" "''export default 1''" "''/mod''"] by auto
  obtain s3 where s3: "findAndServeEncoded module_env ?C (''/old'' @ ''.cjs'') (get ''/old'')
        (start\<lparr>opens := opens start @ [path_Join ''/spa/public'' ''/old.mjs''],
               opens := opens (start\<lparr>opens := opens start @ [path_Join ''/spa/public'' ''/old.mjs'']\<rparr>)
                          @ [path_Join ''/spa/public'' ''/old.js'']\<rparr>)
      = Return (True, None) s3" "Body s3 = ''module.exports = 1''"
    using module_hit [of "''/old.cjs''" "''module.exports = 1''" "''/old''"] by auto
  have miss: "importFallback entry_env ?C ''/missing'' (get ''/missing'') start
       = Return (False, None)
           (start\<lparr>opens := [''/spa/public/missing.mjs'', ''/spa/public/missing.js'',
                              ''/spa/public/missing.cjs'']\<rparr>)"
    using main [where cfg = ?C and p = "''/missing''" and e = entry_env
        and req = "get ''/missing''" and s = start
        and ?s1.0 = "start\<lparr>opens := [''/spa/public/missing.mjs'']\<rparr>"
        and ?s2.0 = "start\<lparr>opens := [''/spa/public/missing.mjs'', ''/spa/public/missing.js'']\<rparr>"
        and ?s3.0 = "start\<lparr>opens := [''/spa/public/missing.mjs'', ''/spa/public/missing.js'',
                              ''/spa/public/missing.cjs'']\<rparr>"]
    by (simp add: applies_examples m0 adm findAndServeEncoded_plain findAndServe_missing
        join_public entry_fs_def start_def)
  have w1: "importFallback module_env (?C\<lparr>ImportFallbackRegexp := ''disabled''\<rparr>)
       ''/mod'' (get ''/mod'') start = Return (False, None) start"
    using main [where cfg = "?C\<lparr>ImportFallbackRegexp := ''disabled''\<rparr>"
        and p = "''/mod''" and e = module_env and req = "get ''/mod''" and s = start]
    by (simp add: applies_examples)
  have w2: "importFallback module_env ?C ''/app.js'' (get ''/app.js'') start
       = Return (False, None) start"
    using main [where cfg = ?C and p = "''/app.js''" and e = module_env
        and req = "get ''/app.js''" and s = start]
    by (simp add: applies_examples)
  have w2b: "importFallback paren_env paren_cfg ''/mod'' (get ''/mod'') start
       = Return (False, Some (ErrOther ''error parsing regexp: missing closing )'')) start"
    using main [where cfg = paren_cfg and p = "''/mod''" and e = paren_env
        and req = "get ''/mod''" and s = start
        and x = "ErrOther ''error parsing regexp: missing closing )''"] par
    by (simp add: m0)
  have w3: "importFallback module_env (?C\<lparr>ImportFallbackRegexp := ''^/app/''\<rparr>)
       ''/missing'' (get ''/missing'') start = Return (False, None) start"
    using main [where cfg = "?C\<lparr>ImportFallbackRegexp := ''^/app/''\<rparr>"
        and p = "''/missing''" and e = module_env and req = "get ''/missing''" and s = start]
    by (simp add: applies_examples m0 rej)
  have w4: "importFallback module_env ?C ''/both'' (get ''/both'') start
              = Return (True, None) (Store ''/both'' ''/both.mjs'' s1)
            \<and> importFallbackMap (world_of (importFallback module_env ?C ''/both'' (get ''/both'') start))
                 ''/both'' = Some ''/both.mjs''"
    using main [where cfg = ?C and p = "''/both''" and e = module_env
        and req = "get ''/both''" and s = start and ?s1.0 = s1 and err = None] s1
    by (simp add: applies_examples m0 adm)
  have w5: "importFallback module_env ?C ''/mod'' (get ''/mod'') start
              = Return (True, None) (Store ''/mod'' ''/mod.js'' s2)
            \<and> importFallbackMap (world_of (importFallback module_env ?C ''/mod'' (get ''/mod'') start))
                 ''/mod'' = Some ''/mod.js''"
    using main [where cfg = ?C and p = "''/mod''" and e = module_env
        and req = "get ''/mod''" and s = start and err = None and ?s2.0 = s2
        and ?s1.0 = "start\<lparr>opens := opens start @ [path_Join ''/spa/public'' ''/mod.mjs'']\<rparr>"]
      s2 module_miss [of "''/mod.mjs''" "''/mod''" start]
    by (simp add: applies_examples m0 adm)
  have w6: "importFallback module_env ?C ''/old'' (get ''/old'') start
              = Return (True, None) (Store ''/old'' ''/old.cjs'' s3)
            \<and> importFallbackMap (world_of (importFallback module_env ?C ''/old'' (get ''/old'') start))
                 ''/old'' = Some ''/old.cjs''"
    using main [where cfg = ?C and p = "''/old''" and e = module_env
        and req = "get ''/old''" and s = start and err = None and ?s3.0 = s3
        and ?s1.0 = "start\<lparr>opens := opens start @ [path_Join ''/spa/public'' ''/old.mjs'']\<rparr>"
        and ?s2.0 = "start\<lparr>opens := opens start @ [path_Join ''/spa/public'' ''/old.mjs''],
               opens := opens (start\<lparr>opens := opens start @ [path_Join ''/spa/public'' ''/old.mjs'']\<rparr>)
                          @ [path_Join ''/spa/public'' ''/old.js'']\<rparr>"]
      s3 module_miss [of "''/old.mjs''" "''/old''" start]
      module_miss [of "''/old.js''" "''/old''"
        "start\<lparr>opens := opens start @ [path_Join ''/spa/public'' ''/old.mjs'']\<rparr>"]
    by (simp add: applies_examples m0 adm)
  from w1 w2 w2b w3 w4 w5 w6 miss s1(2) s2(2) s3(2) show ?thesis
    by blast
qed

text \<open>
  The claim gives "not found" to every path that a non-empty restriction pattern does not
  match.  The pattern \<open>(\<close> is not empty and does not compile, so that it matches no
  path; for the path \<open>/mod\<close>, to which the import fallback applies and for which the
  cache has no entry, the import fallback returns the compile error, and the handler
  answers 500 where "not found" is 404.
\<close>

theorem import_fallback_pattern_counterexample:
  "import_fallback_applies paren_cfg ''/mod''
   \<and> importFallbackMap start ''/mod'' = None
   \<and> ImportFallbackRegexp paren_cfg = ''(''
   \<and> \<not> fst (regexp_MatchString paren_env ''('' ''/mod'')
   \<and> importFallback paren_env paren_cfg ''/mod'' (get ''/mod'')
          (start\<lparr>opens := [''/spa/public/mod'']\<rparr>)
        = Return (False, Some (ErrOther ''error parsing regexp: missing closing )''))
            (start\<lparr>opens := [''/spa/public/mod'']\<rparr>)
   \<and> Status (world_of (handler paren_env paren_cfg (get ''/mod'') start)) = Some 500
   \<and> opens (world_of (handler paren_env paren_cfg (get ''/mod'') start)) = [''/spa/public/mod'']"
proof -
  have 1: "import_fallback_applies paren_cfg ''/mod''"
    by (simp add: paren_cfg_def import_fallback_applies_def strings_HasPrefix_def
        strings_HasSuffix_def suffix_to_prefix)
  have 2: "importFallbackMap start ''/mod'' = None"
    by (simp add: start_def)
  have 3: "ImportFallbackRegexp paren_cfg = ''(''"
    by (simp add: paren_cfg_def)
  have 4: "\<not> fst (regexp_MatchString paren_env ''('' ''/mod'')"
    by (simp add: regexp_MatchString_def paren_env_def paren_regexp_def)
  have 5: "importFallback paren_env paren_cfg ''/mod'' (get ''/mod'')
          (start\<lparr>opens := [''/spa/public/mod'']\<rparr>)
        = Return (False, Some (ErrOther ''error parsing regexp: missing closing )''))
            (start\<lparr>opens := [''/spa/public/mod'']\<rparr>)"
    using 1 by (simp add: importFallback_def import_fallback_applies_def importFallback_regexp_def
        3 paren_env_def paren_regexp_def start_def)
  have 6: "Status (world_of (handler paren_env paren_cfg (get ''/mod'') start)) = Some 500"
    by code_simp
  have 7: "opens (world_of (handler paren_env paren_cfg (get ''/mod'') start)) = [''/spa/public/mod'']"
    by code_simp
  from 1 2 3 4 5 6 7 show ?thesis by blast
qed

text \<open>
  C9.  Once the cache maps a resource path, to which the import fallback applies, to a
  real path, the entry stays as it is through every later request of the process,
  whatever the requests and whatever the file system at their time; and for every such
  later world the import fallback of that path is the negotiation of the cached real
  path and nothing else: no suffix is tried again.  The requests of the model are served
  one after the other.
\<close>

theorem import_fallback_memoised:
  assumes "import_fallback_applies cfg p"
    and "importFallbackMap s p = Some realPath"
  shows "importFallbackMap (serve_all cfg reqs s) p = Some realPath
       \<and> importFallback e cfg p req (serve_all cfg reqs s)
           = findAndServeEncoded e cfg realPath req (serve_all cfg reqs s)"
proof -
  have kept: "importFallbackMap (serve_all cfg reqs s) p = Some realPath"
    using assms(2) by (rule serve_all_keeps)
  then show ?thesis
    using assms(1) by (simp add: importFallback_def import_fallback_applies_def)
qed

theorem import_fallback_memoised_witness:
  "importFallbackMap
     (serve_all (plain_cfg [''/spa/public''])
        [(entry_env, get ''/missing''), (entry_env, get ''/mod'')]
        (world_of (ServeHTTP module_env (plain_cfg [''/spa/public'']) (get ''/mod'') start)))
     ''/mod'' = Some ''/mod.js''
   \<and> importFallback entry_env (plain_cfg [''/spa/public'']) ''/mod'' (get ''/mod'')
       (serve_all (plain_cfg [''/spa/public''])
          [(entry_env, get ''/missing''), (entry_env, get ''/mod'')]
          (world_of (ServeHTTP module_env (plain_cfg [''/spa/public'']) (get ''/mod'') start)))
     = findAndServeEncoded entry_env (plain_cfg [''/spa/public'']) ''/mod.js'' (get ''/mod'')
         (serve_all (plain_cfg [''/spa/public''])
            [(entry_env, get ''/missing''), (entry_env, get ''/mod'')]
            (world_of (ServeHTTP module_env (plain_cfg [''/spa/public'']) (get ''/mod'') start)))"
  by (rule import_fallback_memoised [OF applies_examples(1) first_mod_request])

subsection \<open>Precompressed variants\<close>

text \<open>
  C4, on the code.  One root holds \<open>app.js\<close>, \<open>app.js.br\<close> and \<open>app.js.gz\<close>, and
  brotli is enabled.  The request for \<open>/app.js\<close> with the header line
  \<open>Accept-Encoding: gzip, deflate, br\<close> includes the token \<open>br\<close>; it is answered 200
  with \<open>Content-Encoding: gzip\<close> and the bytes of \<open>app.js.gz\<close>, and \<open>app.js.br\<close> is
  never opened.  With \<open>deflate, br\<close> the answer is the uncompressed file.  Only with
  \<open>br\<close> at the start of the line, as in \<open>br, gzip\<close>, is the answer the brotli
  variant with the type of the extension \<open>.js\<close>.  \<open>Values\<close> gives the header lines
  as they arrived, and \<open>HasPrefix\<close> tests the start of a whole line.
\<close>

theorem brotli_skipped_behind_other_encodings:
  "Header_Values (ReqHeader (get_encoded ''/app.js'' ''gzip, deflate, br'')) ''Accept-Encoding''
     = [''gzip, deflate, br'']
   \<and> plain_request (get_encoded ''/app.js'' ''gzip, deflate, br'')
   \<and> \<not> BrotliDisabled (plain_cfg [''/spa/public''])
   \<and> (case fst (findFile (plain_env bundle_fs) (plain_cfg [''/spa/public'']) ''/app.js.br'' start) of
         Found f \<Rightarrow> Data f = ''BR'' | NotFound \<Rightarrow> False | Failed err \<Rightarrow> False)
   \<and> Status (world_of (handler (plain_env bundle_fs) (plain_cfg [''/spa/public''])
          (get_encoded ''/app.js'' ''gzip, deflate, br'') start)) = Some 200
   \<and> Header (world_of (handler (plain_env bundle_fs) (plain_cfg [''/spa/public''])
          (get_encoded ''/app.js'' ''gzip, deflate, br'') start)) ''Content-Encoding''
       = Some [''gzip'']
   \<and> Body (world_of (handler (plain_env bundle_fs) (plain_cfg [''/spa/public''])
          (get_encoded ''/app.js'' ''gzip, deflate, br'') start)) = ''GZ''
   \<and> opens (world_of (handler (plain_env bundle_fs) (plain_cfg [''/spa/public''])
          (get_encoded ''/app.js'' ''gzip, deflate, br'') start)) = [''/spa/public/app.js.gz'']
   \<and> Header (world_of (handler (plain_env bundle_fs) (plain_cfg [''/spa/public''])
          (get_encoded ''/app.js'' ''deflate, br'') start)) ''Content-Encoding'' = None
   \<and> Body (world_of (handler (plain_env bundle_fs) (plain_cfg [''/spa/public''])
          (get_encoded ''/app.js'' ''deflate, br'') start)) = ''plain''
   \<and> Header (world_of (handler (plain_env bundle_fs) (plain_cfg [''/spa/public''])
          (get_encoded ''/app.js'' ''br, gzip'') start)) ''Content-Encoding'' = Some [''br'']
   \<and> Header (world_of (handler (plain_env bundle_fs) (plain_cfg [''/spa/public''])
          (get_encoded ''/app.js'' ''br, gzip'') start)) ''Content-Type''
       = Some [''application/javascript'']
   \<and> Body (world_of (handler (plain_env bundle_fs) (plain_cfg [''/spa/public''])
          (get_encoded ''/app.js'' ''br, gzip'') start)) = ''BR''"
  by code_simp

subsection \<open>Errors\<close>








subsection \<open>Header precedence\<close>

text \<open>
  C6, on the code.  The pattern \<open>[.]json$\<close> matches \<open>/data.json\<close>.  When the rule of
  the pattern and the global map both give a value for \<open>cache-control\<close>, spelled so,
  the response carries the global value; spelled \<open>Cache-Control\<close> in both, it carries
  the value of the rule.  \<open>Set\<close> files a value under the canonical name, and the test
  "not already present" indexes the map with the name as configured.
\<close>

theorem lower_case_global_header_overrides_rule:
  "fst (regexp_MatchString json_env ''[.]json$'' ''/data.json'')
   \<and> Status (world_of (handler json_env (header_cfg ''cache-control'') (get ''/data.json'') start))
       = Some 200
   \<and> Header (world_of (handler json_env (header_cfg ''cache-control'') (get ''/data.json'') start))
         ''Cache-Control''
       = Some [''no-cache'']
   \<and> Header (world_of (handler json_env (header_cfg ''Cache-Control'') (get ''/data.json'') start))
         ''Cache-Control''
       = Some [''immutable'']"
  by code_simp

subsection \<open>Default cache control\<close>

text \<open>
  C7, on the code.  With the base URL \<open>/\<close> and no header rule, the request for \<open>/\<close>
  is answered 200 with the entry document and
  \<open>Cache-Control: public, max-age=31536000, immutable\<close>, and so is the request for
  \<open>/index.html\<close>: the handler looks the document up as \<open>index.html\<close>, and the header
  policy gives \<open>no-cache\<close> to the name \<open>/index.html\<close> only, which is the name of the
  document when no base URL is stripped.
\<close>

theorem index_served_immutable_under_root_base_url:
  "Status (world_of (handler entry_env root_cfg (get ''/'') start)) = Some 200
   \<and> Body (world_of (handler entry_env root_cfg (get ''/'') start)) = ''<html>Home</html>''
   \<and> Header (world_of (handler entry_env root_cfg (get ''/'') start)) ''Cache-Control''
       = Some [''public, max-age=31536000, immutable'']
   \<and> Header (world_of (handler entry_env root_cfg (get ''/index.html'') start)) ''Cache-Control''
       = Some [''public, max-age=31536000, immutable'']
   \<and> Header (world_of (handler entry_env (plain_cfg [''/spa/public'']) (get ''/index.html'') start))
         ''Cache-Control''
       = Some [''no-cache'']"
  by code_simp

end
